theory Spec2Isabelle
  imports Complex_Main "HOL-Library.Log_Nat"
begin

section \<open>JavaScript numbers\<close>

text \<open>
  A JavaScript number is an IEEE 754 binary64 value: a finite value, one of the two
  infinities, or NaN. A finite value is carried as the rational it denotes; the two zeros
  are one value, as \<open>===\<close> has them (the provider never divides by a zero, so the sign
  of a zero shows nowhere in its results).
\<close>

datatype number = Fin rat | PosInf | NegInf | NaN

text \<open>\<open>pow2 k\<close> is \<open>2\<close> to the power \<open>k\<close>, for an integer \<open>k\<close> of either sign.\<close>

definition pow2 :: "int \<Rightarrow> rat" where
  "pow2 k = 2 powi k"

text \<open>
  The binary exponent of a positive rational: the \<open>e\<close> with
  \<open>pow2 e \<le> x < pow2 (e + 1)\<close>, read off the bit length of \<open>\<lfloor>x\<rfloor>\<close> or of
  \<open>\<lfloor>1 / x\<rfloor>\<close>.
\<close>

definition ilog2 :: "rat \<Rightarrow> int" where
  "ilog2 x =
     (if 1 \<le> x then bitlen \<lfloor>x\<rfloor> - 1
      else let b = bitlen \<lfloor>1 / x\<rfloor> in if x = pow2 (1 - b) then 1 - b else - b)"

text \<open>The nearest integer; of two equally near, the even one.\<close>

definition round_half_even :: "rat \<Rightarrow> int" where
  "round_half_even x =
     (let f = \<lfloor>x\<rfloor>; d = x - of_int f
      in if d < 1 / 2 then f else if 1 / 2 < d then f + 1 else if even f then f else f + 1)"

text \<open>
  Rounding of an exact result to binary64, to nearest with ties to even, as every
  arithmetic operation of the language does. A finite binary64 value is a multiple
  \<open>m * pow2 (e - 52)\<close> with \<open>m \<le> 2 ^ 53\<close>, where \<open>e\<close> is the binary exponent of
  the value and at least \<open>-1022\<close> (below \<open>pow2 (-1022)\<close> the values are the
  subnormal ones, all multiples of \<open>pow2 (-1074)\<close>). A result that rounds to
  \<open>pow2 1024\<close> or beyond is an infinity.
\<close>

definition round_double :: "rat \<Rightarrow> number" where
  "round_double x =
     (if x = 0 then Fin 0
      else
        let a = \<bar>x\<bar>;
            e = max (ilog2 a) (- 1022);
            ulp = pow2 (e - 52);
            r = of_int (round_half_even (a / ulp)) * ulp
        in if pow2 1024 \<le> r then (if 0 < x then PosInf else NegInf)
           else Fin (if 0 < x then r else - r))"

text \<open>
  \<open>a / d\<close> for a positive numeric literal \<open>d\<close>; the provider divides by 100 and by
  500000 only.
\<close>

fun number_div :: "number \<Rightarrow> rat \<Rightarrow> number" where
  "number_div (Fin x) d = round_double (x / d)"
| "number_div PosInf d = PosInf"
| "number_div NegInf d = NegInf"
| "number_div NaN d = NaN"

text \<open>\<open>a + b\<close> and \<open>a - b\<close> on numbers.\<close>

fun number_add :: "number \<Rightarrow> number \<Rightarrow> number" where
  "number_add (Fin x) (Fin y) = round_double (x + y)"
| "number_add NaN b = NaN"
| "number_add a NaN = NaN"
| "number_add PosInf NegInf = NaN"
| "number_add NegInf PosInf = NaN"
| "number_add PosInf b = PosInf"
| "number_add NegInf b = NegInf"
| "number_add a PosInf = PosInf"
| "number_add a NegInf = NegInf"

fun number_sub :: "number \<Rightarrow> number \<Rightarrow> number" where
  "number_sub (Fin x) (Fin y) = round_double (x - y)"
| "number_sub NaN b = NaN"
| "number_sub a NaN = NaN"
| "number_sub PosInf PosInf = NaN"
| "number_sub NegInf NegInf = NaN"
| "number_sub PosInf b = PosInf"
| "number_sub NegInf b = NegInf"
| "number_sub a PosInf = NegInf"
| "number_sub a NegInf = PosInf"

text \<open>\<open>a >= d\<close> and \<open>a > d\<close> against a numeric literal; a comparison with NaN is false.\<close>

fun number_ge :: "number \<Rightarrow> rat \<Rightarrow> bool" where
  "number_ge (Fin x) d = (d \<le> x)"
| "number_ge PosInf d = True"
| "number_ge NegInf d = False"
| "number_ge NaN d = False"

fun number_gt :: "number \<Rightarrow> rat \<Rightarrow> bool" where
  "number_gt (Fin x) d = (d < x)"
| "number_gt PosInf d = True"
| "number_gt NegInf d = False"
| "number_gt NaN d = False"


section \<open>JavaScript values as the provider sees them\<close>

text \<open>
  The provider reads response bodies that axios has parsed from JSON and never checks
  their shape, so the model carries untyped values. The numbers among them are
  \<open>JNum r\<close> for a finite binary64 value \<open>r\<close>, the two infinities and \<open>JNaN\<close>. An
  object is the list of its own properties.
\<close>

datatype jsval =
    JUndefined
  | JNull
  | JBool bool
  | JNum rat
  | JPosInf
  | JNegInf
  | JNaN
  | JStr string
  | JArr "jsval list"
  | JObj "(string \<times> jsval) list"

text \<open>Truthiness, as \<open>!x\<close>, \<open>x || y\<close> and \<open>if (x)\<close> test it.\<close>

fun truthy :: "jsval \<Rightarrow> bool" where
  "truthy JUndefined = False"
| "truthy JNull = False"
| "truthy (JBool b) = b"
| "truthy (JNum r) = (r \<noteq> 0)"
| "truthy JPosInf = True"
| "truthy JNegInf = True"
| "truthy JNaN = False"
| "truthy (JStr s) = (s \<noteq> [])"
| "truthy (JArr xs) = True"
| "truthy (JObj kvs) = True"

fun nullish :: "jsval \<Rightarrow> bool" where
  "nullish JUndefined = True"
| "nullish JNull = True"
| "nullish v = False"

text \<open>
  Reading a property of a value that is neither \<open>null\<close> nor \<open>undefined\<close>. The names the
  provider reads (\<open>error\<close>, \<open>hard_limit_usd\<close>, \<open>total_usage\<close>, \<open>data\<close>, \<open>quota\<close>,
  \<open>used_quota\<close>, \<open>usage\<close>, \<open>limit\<close>) are on no prototype, so every value other than an
  object yields \<open>undefined\<close>.
\<close>

fun own_prop :: "jsval \<Rightarrow> string \<Rightarrow> jsval" where
  "own_prop (JObj kvs) k = (case map_of kvs k of None \<Rightarrow> JUndefined | Some v \<Rightarrow> v)"
| "own_prop v k = JUndefined"

text \<open>\<open>v.k\<close>: a TypeError (\<open>None\<close>) on \<open>null\<close> and \<open>undefined\<close>.\<close>

definition member :: "jsval \<Rightarrow> string \<Rightarrow> jsval option" where
  "member v k = (if nullish v then None else Some (own_prop v k))"

text \<open>\<open>v?.k\<close>: \<open>undefined\<close> on \<open>null\<close> and \<open>undefined\<close>.\<close>

definition opt_member :: "jsval \<Rightarrow> string \<Rightarrow> jsval" where
  "opt_member v k = (if nullish v then JUndefined else own_prop v k)"

text \<open>\<open>a || b\<close>.\<close>

definition js_or :: "jsval \<Rightarrow> jsval \<Rightarrow> jsval" where
  "js_or a b = (if truthy a then a else b)"

text \<open>
  ToNumber. What the language runtime makes of a string, an array or an object
  (StringToNumber, ToPrimitive) is not code of this repository: it is the parameter
  \<open>c\<close>.
\<close>

fun ToNumber :: "(jsval \<Rightarrow> number) \<Rightarrow> jsval \<Rightarrow> number" where
  "ToNumber c JUndefined = NaN"
| "ToNumber c JNull = Fin 0"
| "ToNumber c (JBool b) = Fin (if b then 1 else 0)"
| "ToNumber c (JNum r) = Fin r"
| "ToNumber c JPosInf = PosInf"
| "ToNumber c JNegInf = NegInf"
| "ToNumber c JNaN = NaN"
| "ToNumber c v = c v"

fun of_number :: "number \<Rightarrow> jsval" where
  "of_number (Fin r) = JNum r"
| "of_number PosInf = JPosInf"
| "of_number NegInf = JNegInf"
| "of_number NaN = JNaN"

text \<open>\<open>a / d\<close> for a positive numeric literal \<open>d\<close>.\<close>

definition js_div :: "(jsval \<Rightarrow> number) \<Rightarrow> jsval \<Rightarrow> rat \<Rightarrow> jsval" where
  "js_div c a d = of_number (number_div (ToNumber c a) d)"

text \<open>\<open>a - b\<close>.\<close>

definition js_sub :: "(jsval \<Rightarrow> number) \<Rightarrow> jsval \<Rightarrow> jsval \<Rightarrow> jsval" where
  "js_sub c a b = of_number (number_sub (ToNumber c a) (ToNumber c b))"

text \<open>
  \<open>a + b\<close> where both operands are numbers already, as the two quotients of
  \<open>tryOneAPI\<close> are (with a string for an operand \<open>+\<close> would concatenate).
\<close>

fun the_number :: "jsval \<Rightarrow> number" where
  "the_number (JNum r) = Fin r"
| "the_number JPosInf = PosInf"
| "the_number JNegInf = NegInf"
| "the_number v = NaN"

definition js_add :: "jsval \<Rightarrow> jsval \<Rightarrow> jsval" where
  "js_add a b = of_number (number_add (the_number a) (the_number b))"

text \<open>\<open>a >= d\<close> and \<open>a > d\<close> against a numeric literal.\<close>

definition js_ge :: "(jsval \<Rightarrow> number) \<Rightarrow> jsval \<Rightarrow> rat \<Rightarrow> bool" where
  "js_ge c a d = number_ge (ToNumber c a) d"

definition js_gt :: "(jsval \<Rightarrow> number) \<Rightarrow> jsval \<Rightarrow> rat \<Rightarrow> bool" where
  "js_gt c a d = number_gt (ToNumber c a) d"

text \<open>\<open>s.includes(sub)\<close>: \<open>sub\<close> starts at some position of \<open>s\<close>.\<close>

fun str_includes :: "string \<Rightarrow> string \<Rightarrow> bool" where
  "str_includes [] sub = (sub = [])"
| "str_includes (x # xs) sub = (take (length sub) (x # xs) = sub \<or> str_includes xs sub)"


section \<open>The HTTP client and the world outside\<close>

record request =
  url :: string
  params :: "(string \<times> string) list"
  req_headers :: "(string \<times> string) list"

record AxiosInstance =
  timeout :: nat
  headers :: "(string \<times> string) list"

text \<open>
  Everything one invocation takes from outside the provider. \<open>reply n rq\<close> is the
  outcome of request \<open>rq\<close> when \<open>n\<close> requests were issued before it: \<open>Some body\<close> is
  the \<open>data\<close> of the response, \<open>None\<close> a rejected promise (network error, timeout,
  status outside 2xx). \<open>today\<close>, \<open>monthStart\<close> and \<open>yearStart\<close> are the strings that
  \<open>formatDate\<close> yields for now, the first of this month and the first of January.
\<close>

record runtime =
  reply :: "nat \<Rightarrow> request \<Rightarrow> jsval option"
  coerce :: "jsval \<Rightarrow> number"
  today :: string
  monthStart :: string
  yearStart :: string

text \<open>
  The request that \<open>this.client.get(url, {params})\<close> sends: the client's default
  headers go with every request.
\<close>

definition mk_request :: "AxiosInstance \<Rightarrow> string \<Rightarrow> (string \<times> string) list \<Rightarrow> request" where
  "mk_request c u ps = \<lparr>url = u, params = ps, req_headers = headers c\<rparr>"

text \<open>
  \<open>await this.client.get(url, {params})\<close>: the request is appended to the list \<open>lg\<close>
  of the requests issued so far.
\<close>

definition client_get ::
  "runtime \<Rightarrow> AxiosInstance \<Rightarrow> string \<Rightarrow> (string \<times> string) list \<Rightarrow> request list
     \<Rightarrow> jsval option \<times> request list" where
  "client_get rt c u ps lg =
     (let rq = mk_request c u ps in (reply rt (length lg) rq, lg @ [rq]))"


section \<open>UniversalProvider\<close>

record UsageResult =
  todayUsed :: jsval
  monthUsed :: jsval
  totalUsed :: jsval
  total :: jsval
  remaining :: jsval
  type :: string
  error :: "string option"

record UniversalProvider =
  client :: AxiosInstance
  apiKey :: string
  endpoint :: string

text \<open>\<open>endpoint.replace(/\/$/, '')\<close>: without the \<open>m\<close> flag \<open>$\<close> is the end of the string.\<close>

definition strip_trailing_slash :: "string \<Rightarrow> string" where
  "strip_trailing_slash s = (if s \<noteq> [] \<and> last s = CHR ''/'' then butlast s else s)"

definition new_UniversalProvider :: "string \<Rightarrow> string \<Rightarrow> UniversalProvider" where
  "new_UniversalProvider k e =
     \<lparr>client = \<lparr>timeout = 30000,
                headers = [(''Authorization'', ''Bearer '' @ k),
                           (''Content-Type'', ''application/json'')]\<rparr>,
      apiKey = k,
      endpoint = strip_trailing_slash e\<rparr>"

text \<open>
  \<open>tryNewAPIBilling\<close>. The subscription call comes first; the three usage calls
  are all issued (in the order today, month, year) before \<open>Promise.all\<close> is awaited,
  and one rejection rejects the whole. Every exception inside the \<open>try\<close> ends in
  \<open>return null\<close>.
\<close>

definition tryNewAPIBilling ::
  "runtime \<Rightarrow> UniversalProvider \<Rightarrow> request list \<Rightarrow> UsageResult option \<times> request list" where
  "tryNewAPIBilling rt p lg =
     (case client_get rt (client p) (endpoint p @ ''/v1/dashboard/billing/subscription'') [] lg of
        (None, lg1) \<Rightarrow> (None, lg1)
      | (Some subData, lg1) \<Rightarrow>
          if \<not> truthy subData then (None, lg1)
          else
            (case member subData ''error'' of
               None \<Rightarrow> (None, lg1)
             | Some err \<Rightarrow>
                 if truthy err then (None, lg1)
                 else
                   (case member subData ''hard_limit_usd'' of
                      None \<Rightarrow> (None, lg1)
                    | Some h \<Rightarrow>
                        let hardLimitUsd = js_or h (JNum 0);
                            todayStart = today rt;
                            todayEnd = today rt;
                            usageUrl = endpoint p @ ''/v1/dashboard/billing/usage'';
                            (todayResponse, lg2) =
                               client_get rt (client p) usageUrl
                                 [(''start_date'', todayStart), (''end_date'', todayEnd)] lg1;
                            (monthResponse, lg3) =
                               client_get rt (client p) usageUrl
                                 [(''start_date'', monthStart rt), (''end_date'', todayEnd)] lg2;
                            (totalResponse, lg4) =
                               client_get rt (client p) usageUrl
                                 [(''start_date'', yearStart rt), (''end_date'', todayEnd)] lg3
                        in
                          (case (todayResponse, monthResponse, totalResponse) of
                             (Some todayData, Some monthData, Some totalData) \<Rightarrow>
                               let todayU = js_div (coerce rt)
                                     (js_or (opt_member todayData ''total_usage'') (JNum 0)) 100;
                                   monthU = js_div (coerce rt)
                                     (js_or (opt_member monthData ''total_usage'') (JNum 0)) 100;
                                   totalU = js_div (coerce rt)
                                     (js_or (opt_member totalData ''total_usage'') (JNum 0)) 100;
                                   isUnlimited = js_ge (coerce rt) hardLimitUsd 1000000
                               in (Some \<lparr>todayUsed = todayU,
                                         monthUsed = monthU,
                                         totalUsed = totalU,
                                         total = (if isUnlimited then JNum 0 else hardLimitUsd),
                                         remaining = (if isUnlimited then JNum 0
                                                      else js_sub (coerce rt) hardLimitUsd totalU),
                                         type = ''NewAPI'',
                                         error = None\<rparr>, lg4)
                           | _ \<Rightarrow> (None, lg4)))))"

text \<open>\<open>tryOneAPI\<close>.\<close>

definition tryOneAPI ::
  "runtime \<Rightarrow> UniversalProvider \<Rightarrow> request list \<Rightarrow> UsageResult option \<times> request list" where
  "tryOneAPI rt p lg =
     (case client_get rt (client p) (endpoint p @ ''/api/user/self'') [] lg of
        (None, lg1) \<Rightarrow> (None, lg1)
      | (Some body, lg1) \<Rightarrow>
          let data = opt_member body ''data'' in
          if \<not> truthy data then (None, lg1)
          else
            (case (member data ''quota'', member data ''used_quota'') of
               (Some q, Some u) \<Rightarrow>
                 let quota = js_div (coerce rt) (js_or q (JNum 0)) 500000;
                     usedQuota = js_div (coerce rt) (js_or u (JNum 0)) 500000
                 in (Some \<lparr>todayUsed = JNum 0,
                           monthUsed = JNum 0,
                           totalUsed = usedQuota,
                           total = js_add quota usedQuota,
                           remaining = quota,
                           type = ''OneAPI'',
                           error = None\<rparr>, lg1)
             | _ \<Rightarrow> (None, lg1)))"

text \<open>\<open>tryOpenRouter\<close>: the test of the endpoint stands before the \<open>try\<close>.\<close>

definition tryOpenRouter ::
  "runtime \<Rightarrow> UniversalProvider \<Rightarrow> request list \<Rightarrow> UsageResult option \<times> request list" where
  "tryOpenRouter rt p lg =
     (if \<not> str_includes (endpoint p) ''openrouter.ai'' then (None, lg)
      else
        (case client_get rt (client p) ''https://openrouter.ai/api/v1/auth/key'' [] lg of
           (None, lg1) \<Rightarrow> (None, lg1)
         | (Some body, lg1) \<Rightarrow>
             let data = opt_member body ''data'' in
             if \<not> truthy data then (None, lg1)
             else
               (case (member data ''usage'', member data ''limit'') of
                  (Some us, Some li) \<Rightarrow>
                    let usage = js_or us (JNum 0);
                        limit = js_or li (JNum 0)
                    in (Some \<lparr>todayUsed = JNum 0,
                              monthUsed = JNum 0,
                              totalUsed = usage,
                              total = limit,
                              remaining = (if js_gt (coerce rt) limit 0
                                           then js_sub (coerce rt) limit usage else JNum 0),
                              type = ''OpenRouter'',
                              error = None\<rparr>, lg1)
                | _ \<Rightarrow> (None, lg1))))"

text \<open>
  The loop of \<open>fetchUsage\<close> over its detectors. A detector returns a record or
  \<open>null\<close>, or throws; the loop takes the first record whose \<open>error\<close> is falsy
  (absent or the empty string) and goes on otherwise.
\<close>

datatype 'a outcome = Returned 'a | Threw

type_synonym detector = "request list \<Rightarrow> UsageResult option outcome \<times> request list"

fun error_truthy :: "string option \<Rightarrow> bool" where
  "error_truthy None = False"
| "error_truthy (Some s) = (s \<noteq> [])"

fun run_detectors :: "detector list \<Rightarrow> request list \<Rightarrow> UsageResult option \<times> request list" where
  "run_detectors [] lg = (None, lg)"
| "run_detectors (detector # rest) lg =
     (case detector lg of
        (Returned (Some result), lg') \<Rightarrow>
          if \<not> error_truthy (error result) then (Some result, lg')
          else run_detectors rest lg'
      | (Returned None, lg') \<Rightarrow> run_detectors rest lg'
      | (Threw, lg') \<Rightarrow> run_detectors rest lg')"

definition unknown_result :: "string \<Rightarrow> UsageResult" where
  "unknown_result msg =
     \<lparr>todayUsed = JNum 0, monthUsed = JNum 0, totalUsed = JNum 0, total = JNum 0,
      remaining = JNum 0, type = ''unknown'', error = Some msg\<rparr>"

text \<open>An \<open>async\<close> probe that has caught everything returns; it does not throw.\<close>

definition returned ::
  "UsageResult option \<times> request list \<Rightarrow> UsageResult option outcome \<times> request list" where
  "returned x = (Returned (fst x), snd x)"

definition detectors :: "runtime \<Rightarrow> UniversalProvider \<Rightarrow> detector list" where
  "detectors rt p =
     [\<lambda>lg. returned (tryNewAPIBilling rt p lg),
      \<lambda>lg. returned (tryOneAPI rt p lg),
      \<lambda>lg. returned (tryOpenRouter rt p lg)]"

definition fetchUsage ::
  "runtime \<Rightarrow> UniversalProvider \<Rightarrow> request list \<Rightarrow> UsageResult \<times> request list" where
  "fetchUsage rt p lg =
     (if apiKey p = [] \<or> endpoint p = []
      then (unknown_result ''API Key or Endpoint not configured'', lg)
      else
        (case run_detectors (detectors rt p) lg of
           (Some result, lg') \<Rightarrow> (result, lg')
         | (None, lg') \<Rightarrow> (unknown_result ''Unable to detect API type'', lg')))"


section \<open>The requests of the probes\<close>

text \<open>
  Names for the requests that the three probes build, as they appear in the list of
  issued requests.
\<close>

abbreviation subscription_request :: "UniversalProvider \<Rightarrow> request" where
  "subscription_request p \<equiv>
     mk_request (client p) (endpoint p @ ''/v1/dashboard/billing/subscription'') []"

abbreviation usage_request :: "runtime \<Rightarrow> UniversalProvider \<Rightarrow> string \<Rightarrow> request" where
  "usage_request rt p start \<equiv>
     mk_request (client p) (endpoint p @ ''/v1/dashboard/billing/usage'')
       [(''start_date'', start), (''end_date'', today rt)]"

abbreviation self_request :: "UniversalProvider \<Rightarrow> request" where
  "self_request p \<equiv> mk_request (client p) (endpoint p @ ''/api/user/self'') []"

abbreviation auth_key_request :: "UniversalProvider \<Rightarrow> request" where
  "auth_key_request p \<equiv> mk_request (client p) ''https://openrouter.ai/api/v1/auth/key'' []"


section \<open>The remaining balance of a record\<close>

text \<open>
  The data model's description of \<open>remaining\<close>, for a record whose amounts are finite
  numbers: total minus totalUsed (the subtraction of the language), and 0 when total
  is 0.
\<close>

definition remaining_as_specified :: "UsageResult \<Rightarrow> bool" where
  "remaining_as_specified r =
     (case (total r, totalUsed r, remaining r) of
        (JNum T, JNum U, JNum R) \<Rightarrow>
          (if T = 0 then R = 0 else number_sub (Fin T) (Fin U) = Fin R)
      | _ \<Rightarrow> False)"


section \<open>Concrete worlds for evaluation\<close>

text \<open>
  A world that answers the \<open>n\<close>-th request of an invocation with the \<open>n\<close>-th entry
  of a script and rejects every request after the script's end.
\<close>

definition scripted :: "jsval option list \<Rightarrow> nat \<Rightarrow> request \<Rightarrow> jsval option" where
  "scripted rs n rq = (if n < length rs then rs ! n else None)"

definition world :: "jsval option list \<Rightarrow> runtime" where
  "world rs = \<lparr>reply = scripted rs, coerce = (\<lambda>v. NaN), today = ''2026-11-01'',
                monthStart = ''2026-11-01'', yearStart = ''2026-01-01''\<rparr>"


section \<open>Facts about the rounding\<close>

text \<open>
  The binary exponent is the one its description names, the rounding moves a value by at
  most half a unit in the last place, every binary64 value is its own rounding, and so
  the result of a rounding is not changed by rounding it again.
\<close>

lemma pow2_pos: "0 < pow2 k"
  by (simp add: pow2_def)

lemma pow2_add: "pow2 (a + b) = pow2 a * pow2 b"
  by (simp add: pow2_def power_int_add)

lemma pow2_nat: "0 \<le> k \<Longrightarrow> pow2 k = 2 ^ nat k"
  by (simp add: pow2_def power_int_def)

lemma pow2_neg: "0 \<le> k \<Longrightarrow> pow2 (- k) = 1 / 2 ^ nat k"
  by (cases "k = 0") (simp_all add: pow2_def power_int_def inverse_eq_divide power_one_over)

lemma pow2_strict_mono: "a < b \<Longrightarrow> pow2 a < pow2 b"
  by (simp add: pow2_def power_int_strict_increasing)

lemma pow2_mono: "a \<le> b \<Longrightarrow> pow2 a \<le> pow2 b"
  by (simp add: pow2_def power_int_increasing)

lemma pow2_Suc: "pow2 (k + 1) = 2 * pow2 k"
  by (simp add: pow2_def power_int_add_1)

lemma ilog2_bounds:
  assumes "0 < x"
  shows "pow2 (ilog2 x) \<le> x \<and> x < pow2 (ilog2 x + 1)"
proof (cases "1 \<le> x")
  case True
  define n where "n = \<lfloor>x\<rfloor>"
  have n: "1 \<le> n" using True by (simp add: n_def)
  then have b: "1 \<le> bitlen n" by (simp add: bitlen_alt_def)
  have e: "ilog2 x = bitlen n - 1" using True by (simp add: ilog2_def n_def)
  from bitlen_bounds [of n] n
  have lo: "2 ^ nat (bitlen n - 1) \<le> n" and hi: "n < 2 ^ nat (bitlen n)" by auto
  have "(2::rat) ^ nat (bitlen n - 1) = of_int (2 ^ nat (bitlen n - 1))" by simp
  also have "\<dots> \<le> of_int n" using lo by (simp only: of_int_le_iff)
  also have "\<dots> \<le> x" by (simp add: n_def)
  finally have L: "pow2 (ilog2 x) \<le> x" using b by (simp add: e pow2_nat)
  have "n + 1 \<le> 2 ^ nat (bitlen n)" using hi by simp
  then have "(of_int (n + 1) :: rat) \<le> of_int (2 ^ nat (bitlen n))" by (simp only: of_int_le_iff)
  moreover have "x < of_int (n + 1)" unfolding n_def by linarith
  ultimately have "x < 2 ^ nat (bitlen n)" by simp
  then have U: "x < pow2 (ilog2 x + 1)" using b by (simp add: e pow2_nat)
  from L U show ?thesis ..
next
  case False
  define y where "y = 1 / x"
  define n where "n = \<lfloor>y\<rfloor>"
  define b where "b = bitlen n"
  have y: "1 < y" using False assms by (simp add: y_def)
  have x: "x = 1 / y" by (simp add: y_def)
  have n: "1 \<le> n" using y by (simp add: n_def)
  then have b1: "1 \<le> b" by (simp add: b_def bitlen_alt_def)
  from bitlen_bounds [of n] n
  have lo: "2 ^ nat (b - 1) \<le> n" and hi: "n < 2 ^ nat b" by (auto simp: b_def)
  have "(2::rat) ^ nat (b - 1) = of_int (2 ^ nat (b - 1))" by simp
  also have "\<dots> \<le> of_int n" using lo by (simp only: of_int_le_iff)
  also have "\<dots> \<le> y" by (simp add: n_def)
  finally have ylo: "2 ^ nat (b - 1) \<le> y" .
  have "n + 1 \<le> 2 ^ nat b" using hi by simp
  then have "(of_int (n + 1) :: rat) \<le> of_int (2 ^ nat b)" by (simp only: of_int_le_iff)
  moreover have "y < of_int (n + 1)" unfolding n_def by linarith
  ultimately have yhi: "y < 2 ^ nat b" by simp
  have xhi: "x \<le> pow2 (1 - b)"
  proof -
    have "1 / y \<le> 1 / 2 ^ nat (b - 1)"
      using ylo by (intro divide_left_mono) (auto intro: mult_pos_pos simp: less_le_trans [OF _ ylo])
    moreover have "pow2 (1 - b) = 1 / 2 ^ nat (b - 1)"
      using pow2_neg [of "b - 1"] b1 by simp
    ultimately show ?thesis by (simp add: x)
  qed
  have xlo: "pow2 (- b) < x"
  proof -
    have "1 / 2 ^ nat b < 1 / y"
      using yhi y by (intro divide_strict_left_mono) (auto intro: mult_pos_pos)
    moreover have "pow2 (- b) = 1 / 2 ^ nat b"
      using pow2_neg [of b] b1 by simp
    ultimately show ?thesis by (simp add: x)
  qed
  have il: "ilog2 x = (if x = pow2 (1 - b) then 1 - b else - b)"
    using False by (simp add: ilog2_def b_def n_def y_def Let_def)
  show ?thesis
  proof (cases "x = pow2 (1 - b)")
    case True
    then have "ilog2 x = 1 - b" using il by simp
    moreover have "pow2 (1 - b) < pow2 (1 - b + 1)" by (rule pow2_strict_mono) simp
    ultimately show ?thesis using True by simp
  next
    case False
    then have "ilog2 x = - b" using il by simp
    moreover have "x < pow2 (- b + 1)" using xhi False by (simp add: add.commute)
    ultimately show ?thesis using xlo by simp
  qed
qed

lemma ilog2_unique:
  assumes "pow2 k \<le> x" and "x < pow2 (k + 1)"
  shows "ilog2 x = k"
proof -
  have pos: "0 < x" using assms(1) pow2_pos [of k] by simp
  from ilog2_bounds [OF pos]
  have lo: "pow2 (ilog2 x) \<le> x" and hi: "x < pow2 (ilog2 x + 1)" by auto
  have "\<not> ilog2 x < k"
  proof
    assume "ilog2 x < k"
    then have "pow2 (ilog2 x + 1) \<le> pow2 k" by (intro pow2_mono) simp
    with hi assms(1) show False by simp
  qed
  moreover have "\<not> k < ilog2 x"
  proof
    assume "k < ilog2 x"
    then have "pow2 (k + 1) \<le> pow2 (ilog2 x)" by (intro pow2_mono) simp
    with lo assms(2) show False by simp
  qed
  ultimately show ?thesis by simp
qed

lemma round_half_even_near: "\<bar>of_int (round_half_even x) - x\<bar> \<le> 1 / 2"
proof -
  have "of_int \<lfloor>x\<rfloor> \<le> x" "x < of_int \<lfloor>x\<rfloor> + 1" by linarith+
  then show ?thesis
    by (auto simp: round_half_even_def Let_def)
qed

lemma round_half_even_of_int: "round_half_even (of_int m) = m"
  by (simp add: round_half_even_def)

lemma round_half_even_le: "x \<le> of_int N \<Longrightarrow> round_half_even x \<le> N"
  using round_half_even_near [of x] by linarith

lemma round_half_even_ge: "of_int N \<le> x \<Longrightarrow> N \<le> round_half_even x"
  using round_half_even_near [of x] by linarith

lemma round_double_near:
  assumes "round_double x = Fin y"
  shows "\<bar>y - x\<bar> \<le> pow2 (max (ilog2 \<bar>x\<bar>) (- 1022) - 53)"
proof (cases "x = 0")
  case True
  with assms show ?thesis
    using pow2_pos [of "max (ilog2 \<bar>x\<bar>) (- 1022) - 53"] by (simp add: round_double_def)
next
  case False
  define e where "e = max (ilog2 \<bar>x\<bar>) (- 1022)"
  define ulp where "ulp = pow2 (e - 52)"
  define m where "m = round_half_even (\<bar>x\<bar> / ulp)"
  have ulp: "0 < ulp" by (simp add: ulp_def pow2_pos)
  have half: "ulp = 2 * pow2 (e - 53)"
    using pow2_Suc [of "e - 53"] by (simp add: ulp_def)
  have rd: "round_double x =
      (if pow2 1024 \<le> of_int m * ulp then (if 0 < x then PosInf else NegInf)
       else Fin (if 0 < x then of_int m * ulp else - (of_int m * ulp)))"
    unfolding round_double_def Let_def m_def ulp_def e_def
    by (simp only: False if_False)
  have y: "y = (if 0 < x then of_int m * ulp else - (of_int m * ulp))"
    using assms unfolding rd
    by (cases "pow2 1024 \<le> of_int m * ulp"; cases "0 < x") simp_all
  have "\<bar>of_int m - \<bar>x\<bar> / ulp\<bar> \<le> 1 / 2"
    unfolding m_def by (rule round_half_even_near)
  then have "\<bar>of_int m - \<bar>x\<bar> / ulp\<bar> * ulp \<le> 1 / 2 * ulp"
    using ulp by (intro mult_right_mono) simp_all
  moreover have "\<bar>of_int m - \<bar>x\<bar> / ulp\<bar> * ulp = \<bar>of_int m * ulp - \<bar>x\<bar>\<bar>"
  proof -
    have "\<bar>of_int m - \<bar>x\<bar> / ulp\<bar> * ulp = \<bar>(of_int m - \<bar>x\<bar> / ulp) * ulp\<bar>"
      using ulp by (simp only: abs_mult abs_of_pos)
    also have "(of_int m - \<bar>x\<bar> / ulp) * ulp = of_int m * ulp - \<bar>x\<bar>"
      using ulp by (simp add: left_diff_distrib)
    finally show ?thesis .
  qed
  ultimately have "\<bar>of_int m * ulp - \<bar>x\<bar>\<bar> \<le> pow2 (e - 53)"
    by (simp add: half)
  moreover have "\<bar>y - x\<bar> = \<bar>of_int m * ulp - \<bar>x\<bar>\<bar>"
  proof (cases "0 < x")
    case True
    then show ?thesis by (simp add: y)
  next
    case neg: False
    then have "y - x = - (of_int m * ulp - \<bar>x\<bar>)" by (simp add: y)
    then show ?thesis by (simp only: abs_minus_cancel)
  qed
  ultimately show ?thesis by (simp add: e_def)
qed

lemma round_double_unfold:
  assumes "x \<noteq> 0"
  shows "round_double x =
      (if pow2 1024 \<le> of_int (round_half_even (\<bar>x\<bar> / pow2 (max (ilog2 \<bar>x\<bar>) (- 1022) - 52))) *
                        pow2 (max (ilog2 \<bar>x\<bar>) (- 1022) - 52)
       then (if 0 < x then PosInf else NegInf)
       else Fin (if 0 < x
                 then of_int (round_half_even (\<bar>x\<bar> / pow2 (max (ilog2 \<bar>x\<bar>) (- 1022) - 52))) *
                        pow2 (max (ilog2 \<bar>x\<bar>) (- 1022) - 52)
                 else - (of_int (round_half_even (\<bar>x\<bar> / pow2 (max (ilog2 \<bar>x\<bar>) (- 1022) - 52))) *
                        pow2 (max (ilog2 \<bar>x\<bar>) (- 1022) - 52))))"
  unfolding round_double_def Let_def
  by (simp only: assms if_False)

lemma pow2_53: "pow2 (e + 1) = 2 ^ 53 * pow2 (e - 52)"
proof -
  have "e + 1 = 53 + (e - 52)" by simp
  then have "pow2 (e + 1) = pow2 (53 + (e - 52))" by (simp only:)
  also have "\<dots> = pow2 53 * pow2 (e - 52)" by (rule pow2_add)
  also have "pow2 53 = 2 ^ 53" by (simp add: pow2_def)
  finally show ?thesis .
qed

lemma pow2_52: "pow2 e = 2 ^ 52 * pow2 (e - 52)"
proof -
  have "pow2 e = pow2 (52 + (e - 52))" by simp
  also have "\<dots> = pow2 52 * pow2 (e - 52)" by (rule pow2_add)
  also have "pow2 52 = 2 ^ 52" by (simp add: pow2_def)
  finally show ?thesis .
qed

text \<open>Every binary64 value is its own rounding.\<close>

lemma round_double_fixed:
  assumes m: "0 < m" "m \<le> 2 ^ 53"
    and e: "- 1022 \<le> e"
    and normal: "- 1022 < e \<longrightarrow> 2 ^ 52 \<le> m"
    and r: "r = of_int m * pow2 (e - 52)"
    and fin: "r < pow2 1024"
    and z: "z = r \<or> z = - r"
  shows "round_double z = Fin z"
proof -
  define ulp where "ulp = pow2 (e - 52)"
  have ulp: "0 < ulp" by (simp add: ulp_def pow2_pos)
  have rpos: "0 < r" using m(1) ulp by (simp add: r ulp_def)
  have z0: "z \<noteq> 0" and az: "\<bar>z\<bar> = r" using z rpos by auto
  have key: "of_int (round_half_even (r / pow2 (max (ilog2 r) (- 1022) - 52))) *
               pow2 (max (ilog2 r) (- 1022) - 52) = r"
  proof (cases "m = 2 ^ 53")
    case True
    then have r1: "r = pow2 (e + 1)" by (simp add: r pow2_53)
    have "ilog2 r = e + 1"
    proof (rule ilog2_unique)
      show "pow2 (e + 1) \<le> r" by (simp add: r1)
      show "r < pow2 (e + 1 + 1)" unfolding r1 by (rule pow2_strict_mono) simp
    qed
    then have e': "max (ilog2 r) (- 1022) = e + 1" using e by simp
    have "r = 2 ^ 52 * pow2 (e + 1 - 52)" unfolding r1 by (rule pow2_52)
    then have q: "r / pow2 (e + 1 - 52) = of_int (2 ^ 52)"
      using pow2_pos [of "e + 1 - 52"] by simp
    show ?thesis
      unfolding e' q round_half_even_of_int
      using \<open>r = 2 ^ 52 * pow2 (e + 1 - 52)\<close> by simp
  next
    case False
    then have "m \<le> 2 ^ 53 - 1" using m(2) by simp
    then have "(of_int m :: rat) \<le> of_int (2 ^ 53 - 1)" by (simp only: of_int_le_iff)
    then have "of_int m * ulp \<le> of_int (2 ^ 53 - 1) * ulp"
      using ulp by (intro mult_right_mono) simp_all
    also have "\<dots> < 2 ^ 53 * ulp" using ulp by simp
    finally have rhi: "r < pow2 (e + 1)" by (simp add: r ulp_def pow2_53)
    have le_e: "ilog2 r \<le> e"
    proof (rule ccontr)
      assume "\<not> ilog2 r \<le> e"
      then have "pow2 (e + 1) \<le> pow2 (ilog2 r)" by (intro pow2_mono) simp
      with ilog2_bounds [OF rpos] rhi show False by simp
    qed
    have e': "max (ilog2 r) (- 1022) = e"
    proof (cases "- 1022 < e")
      case True
      with normal have "2 ^ 52 \<le> m" by simp
      then have "(of_int (2 ^ 52) :: rat) \<le> of_int m" by (simp only: of_int_le_iff)
      then have "of_int (2 ^ 52) * ulp \<le> of_int m * ulp"
        using ulp by (intro mult_right_mono) simp_all
      then have "pow2 e \<le> r" by (simp add: r ulp_def pow2_52 [of e])
      then have "ilog2 r = e" using rhi by (rule ilog2_unique)
      then show ?thesis using e by simp
    next
      case False
      with e have "e = - 1022" by simp
      with le_e show ?thesis by simp
    qed
    have q: "r / pow2 (e - 52) = of_int m"
      using ulp by (simp add: r ulp_def)
    show ?thesis
      unfolding e' q round_half_even_of_int by (simp add: r)
  qed
  show ?thesis
    using z rpos fin
    by (auto simp add: round_double_unfold [OF z0] az key)
qed

lemma round_double_idem:
  assumes "round_double x = Fin y"
  shows "round_double y = Fin y"
proof (cases "x = 0")
  case True
  with assms show ?thesis by (simp add: round_double_def)
next
  case False
  define a where "a = \<bar>x\<bar>"
  define e where "e = max (ilog2 a) (- 1022)"
  define ulp where "ulp = pow2 (e - 52)"
  define m where "m = round_half_even (a / ulp)"
  define r where "r = of_int m * ulp"
  have apos: "0 < a" using False by (simp add: a_def)
  have ulp: "0 < ulp" by (simp add: ulp_def pow2_pos)
  have rd: "round_double x =
      (if pow2 1024 \<le> r then (if 0 < x then PosInf else NegInf)
       else Fin (if 0 < x then r else - r))"
    unfolding round_double_unfold [OF False] r_def m_def ulp_def e_def a_def ..
  have fin: "r < pow2 1024"
    using assms unfolding rd by (cases "pow2 1024 \<le> r"; cases "0 < x") simp_all
  have y: "y = r \<or> y = - r"
    using assms unfolding rd by (cases "pow2 1024 \<le> r"; cases "0 < x") simp_all
  from ilog2_bounds [OF apos]
  have lo: "pow2 (ilog2 a) \<le> a" and hi: "a < pow2 (ilog2 a + 1)" by auto
  have "pow2 (ilog2 a + 1) \<le> pow2 (e + 1)" by (intro pow2_mono) (simp add: e_def)
  with hi have "a < 2 ^ 53 * ulp" by (simp add: pow2_53 ulp_def)
  then have "a / ulp < 2 ^ 53" using ulp by (simp add: pos_divide_less_eq)
  then have "a / ulp \<le> of_int (2 ^ 53)" by simp
  then have m_hi: "m \<le> 2 ^ 53" unfolding m_def by (rule round_half_even_le)
  have "of_int 0 \<le> a / ulp" using apos ulp by simp
  then have m_lo: "0 \<le> m" unfolding m_def by (rule round_half_even_ge)
  show ?thesis
  proof (cases "m = 0")
    case True
    then have "y = 0" using y by (simp add: r_def)
    then show ?thesis by (simp add: round_double_def)
  next
    case False
    with m_lo have mpos: "0 < m" by simp
    have normal: "- 1022 < e \<longrightarrow> 2 ^ 52 \<le> m"
    proof
      assume "- 1022 < e"
      then have "e = ilog2 a" by (simp add: e_def max_def split: if_splits)
      with lo have "pow2 e \<le> a" by simp
      then have "2 ^ 52 * ulp \<le> a" unfolding ulp_def by (simp only: pow2_52 [of e, symmetric])
      then have "2 ^ 52 \<le> a / ulp" using ulp by (simp add: pos_le_divide_eq)
      then have "of_int (2 ^ 52) \<le> a / ulp" by simp
      then show "2 ^ 52 \<le> m" unfolding m_def by (rule round_half_even_ge)
    qed
    show ?thesis
    proof (rule round_double_fixed [OF mpos m_hi _ normal _ fin y])
      show "- 1022 \<le> e" by (simp add: e_def)
      show "r = of_int m * pow2 (e - 52)" by (simp add: r_def ulp_def)
    qed
  qed
qed

lemma round_double_zero: "round_double 0 = Fin 0"
  by (simp add: round_double_def)

lemma number_add_zero_left: "number_add (Fin 0) (round_double z) = round_double z"
proof (cases "round_double z")
  case (Fin v)
  then show ?thesis using round_double_idem [OF Fin] by simp
qed simp_all

lemma number_add_zero_right: "number_add (round_double z) (Fin 0) = round_double z"
proof (cases "round_double z")
  case (Fin v)
  then show ?thesis using round_double_idem [OF Fin] by simp
qed simp_all

text \<open>Rules that evaluate the rounding of a numeral.\<close>

lemma bitlen_one: "bitlen 1 = 1"
  by (subst compute_bitlen) simp

lemma bitlen_Bit0: "bitlen (numeral (Num.Bit0 k)) = bitlen (numeral k) + 1"
  by (subst compute_bitlen) simp

lemma bitlen_Bit1: "bitlen (numeral (Num.Bit1 k)) = bitlen (numeral k) + 1"
  by (subst compute_bitlen) simp

lemma floor_rat_numeral_divide:
  "\<lfloor>numeral a / numeral b :: rat\<rfloor> = numeral a div numeral b"
  by (metis floor_divide_of_int_eq of_int_numeral)

lemma floor_rat_one_divide: "\<lfloor>1 / numeral b :: rat\<rfloor> = 1 div numeral b"
  by (metis floor_divide_of_int_eq of_int_1 of_int_numeral)

lemmas round_double_eval = round_double_def ilog2_def pow2_def round_half_even_def Let_def
  bitlen_one bitlen_Bit0 bitlen_Bit1 floor_rat_numeral_divide floor_rat_one_divide

text \<open>
  The rounding at some values: two decimal fractions, ties above \<open>2 ^ 53\<close> (to the
  even neighbour), the largest finite value, the least value that overflows, and half
  the least subnormal value (a tie, to zero).
\<close>

lemma round_double_examples:
  "round_double (3 / 100) = Fin (1080863910568919 / 2 ^ 55)"
  "round_double (1 / 10) = Fin (3602879701896397 / 2 ^ 55)"
  "round_double (2 ^ 53 + 1) = Fin (2 ^ 53)"
  "round_double (2 ^ 53 + 3) = Fin (2 ^ 53 + 4)"
  "round_double (- (2 ^ 53 + 3)) = Fin (- (2 ^ 53 + 4))"
  "round_double ((2 ^ 53 - 1) * 2 ^ 971) = Fin ((2 ^ 53 - 1) * 2 ^ 971)"
  "round_double ((2 ^ 54 - 1) * 2 ^ 970) = PosInf"
  "round_double (1 / 2 ^ 1075) = Fin 0"
  by (simp_all add: round_double_eval)

lemma ToNumber_of_number: "ToNumber c (of_number n) = n"
  by (cases n) simp_all

lemma the_number_of_number: "the_number (of_number n) = n"
  by (cases n) simp_all


section \<open>Basic facts about the provider\<close>

lemma client_get_eq:
  "client_get rt c u ps lg = (reply rt (length lg) (mk_request c u ps), lg @ [mk_request c u ps])"
  by (simp add: client_get_def Let_def)

lemma truthy_not_nullish: "truthy v \<Longrightarrow> \<not> nullish v"
  by (cases v) simp_all

lemma member_truthy: "truthy v \<Longrightarrow> member v k = Some (own_prop v k)"
  by (simp add: member_def truthy_not_nullish)

lemma opt_member_truthy: "truthy v \<Longrightarrow> opt_member v k = own_prop v k"
  by (simp add: opt_member_def truthy_not_nullish)

lemma own_prop_num_object: "own_prop v k = JNum x \<Longrightarrow> truthy v"
  by (cases v) simp_all

lemma js_or_num: "js_or (JNum x) (JNum 0) = JNum x"
  by (simp add: js_or_def)

lemma js_div_num: "js_div c (JNum x) d = of_number (number_div (Fin x) d)"
  by (simp add: js_div_def)

lemma js_div_falsy: "\<not> truthy v \<Longrightarrow> js_div c (js_or v (JNum 0)) d = JNum 0"
  by (simp add: js_or_def js_div_def round_double_zero)

text \<open>
  \<open>str_includes\<close> is the substring test: \<open>sub\<close> occurs somewhere in \<open>s\<close>.
\<close>

lemma take_eq_iff_prefix: "(take (length sub) s = sub) = (\<exists>post. s = sub @ post)"
proof
  assume "take (length sub) s = sub"
  then have "s = sub @ drop (length sub) s"
    by (metis append_take_drop_id)
  then show "\<exists>post. s = sub @ post" ..
next
  assume "\<exists>post. s = sub @ post"
  then show "take (length sub) s = sub" by auto
qed

lemma str_includes_iff: "str_includes s sub = (\<exists>pre post. s = pre @ sub @ post)"
proof (induction s)
  case Nil
  show ?case by simp
next
  case (Cons x xs)
  show ?case
  proof
    assume "str_includes (x # xs) sub"
    then consider "take (length sub) (x # xs) = sub" | "str_includes xs sub"
      by auto
    then show "\<exists>pre post. x # xs = pre @ sub @ post"
    proof cases
      case 1
      then obtain post where "x # xs = sub @ post"
        using take_eq_iff_prefix [of sub "x # xs"] by blast
      then have "x # xs = [] @ sub @ post" by simp
      then show ?thesis by blast
    next
      case 2
      then obtain pre post where "xs = pre @ sub @ post"
        using Cons.IH by blast
      then have "x # xs = (x # pre) @ sub @ post" by simp
      then show ?thesis by blast
    qed
  next
    assume "\<exists>pre post. x # xs = pre @ sub @ post"
    then obtain pre post where eq: "x # xs = pre @ sub @ post" by blast
    show "str_includes (x # xs) sub"
    proof (cases pre)
      case Nil
      with eq have "take (length sub) (x # xs) = sub"
        using take_eq_iff_prefix [of sub "x # xs"] by auto
      then show ?thesis by simp
    next
      case (Cons y pre')
      with eq have "xs = pre' @ sub @ post" by simp
      then have "str_includes xs sub" using Cons.IH by blast
      then show ?thesis by simp
    qed
  qed
qed

text \<open>
  The constructor's stripping of a last \<open>/\<close> neither adds nor removes an
  occurrence of a substring that does not end in \<open>/\<close>.
\<close>

lemma str_includes_strip_trailing_slash:
  assumes "sub \<noteq> []" and "last sub \<noteq> CHR ''/''"
  shows "str_includes (strip_trailing_slash e) sub = str_includes e sub"
proof (cases "e \<noteq> [] \<and> last e = CHR ''/''")
  case False
  then show ?thesis by (auto simp: strip_trailing_slash_def)
next
  case True
  then have e: "e = butlast e @ ''/''"
    by (metis append_butlast_last_id)
  have s: "strip_trailing_slash e = butlast e"
    using True by (simp add: strip_trailing_slash_def)
  show ?thesis
  proof
    assume "str_includes (strip_trailing_slash e) sub"
    then obtain pre post where "butlast e = pre @ sub @ post"
      using s str_includes_iff by auto
    then have "e = pre @ sub @ (post @ ''/'')" using e by (metis append_assoc)
    then show "str_includes e sub" using str_includes_iff by blast
  next
    assume "str_includes e sub"
    then obtain pre post where eq: "e = pre @ sub @ post"
      using str_includes_iff by blast
    have "post \<noteq> []"
    proof
      assume "post = []"
      then have "last e = last sub" using eq assms(1) by simp
      then show False using True assms(2) by simp
    qed
    then have "butlast e = pre @ sub @ butlast post"
      using eq assms(1) by (simp add: butlast_append)
    then show "str_includes (strip_trailing_slash e) sub"
      using s str_includes_iff by auto
  qed
qed

text \<open>
  A record that a probe returns has no \<open>error\<close> field.
\<close>

lemma tryNewAPIBilling_error:
  "tryNewAPIBilling rt p lg = (Some r, lg') \<Longrightarrow> error r = None"
  by (auto simp: tryNewAPIBilling_def client_get_eq Let_def split: option.splits if_splits prod.splits)

lemma tryOneAPI_error:
  "tryOneAPI rt p lg = (Some r, lg') \<Longrightarrow> error r = None"
  by (auto simp: tryOneAPI_def client_get_eq Let_def split: option.splits if_splits prod.splits)

lemma tryOpenRouter_error:
  "tryOpenRouter rt p lg = (Some r, lg') \<Longrightarrow> error r = None"
  by (auto simp: tryOpenRouter_def client_get_eq Let_def split: option.splits if_splits prod.splits)

text \<open>
  The requests each probe issues.
\<close>

lemma tryNewAPIBilling_requests_after_subscription:
  assumes "reply rt (length lg) (subscription_request p) = Some sub"
    and "truthy sub" and "\<not> truthy (own_prop sub ''error'')"
  shows "snd (tryNewAPIBilling rt p lg) =
     lg @ [subscription_request p, usage_request rt p (today rt),
           usage_request rt p (monthStart rt), usage_request rt p (yearStart rt)]"
  using assms
  by (simp add: tryNewAPIBilling_def client_get_eq member_truthy Let_def
      split: option.splits)

lemma tryOneAPI_requests: "snd (tryOneAPI rt p lg) = lg @ [self_request p]"
  by (simp add: tryOneAPI_def client_get_eq Let_def split: option.splits)

lemma tryOpenRouter_requests:
  "snd (tryOpenRouter rt p lg) =
     (if str_includes (endpoint p) ''openrouter.ai'' then lg @ [auth_key_request p] else lg)"
  by (simp add: tryOpenRouter_def client_get_eq Let_def split: option.splits)

text \<open>
  The loop over the three detectors, unrolled. A detector that throws is passed over
  like one that returns \<open>null\<close>.
\<close>

lemma run_detectors_skips_throw:
  "run_detectors ((\<lambda>l. (Threw, l)) # ds) lg = run_detectors ds lg"
  by simp

lemma run_detectors_cascade:
  "run_detectors (detectors rt p) lg =
     (case tryNewAPIBilling rt p lg of
        (Some a, lgA) \<Rightarrow> (Some a, lgA)
      | (None, lgA) \<Rightarrow>
          (case tryOneAPI rt p lgA of
             (Some b, lgB) \<Rightarrow> (Some b, lgB)
           | (None, lgB) \<Rightarrow> tryOpenRouter rt p lgB))"
proof -
  obtain ra lgA where A: "tryNewAPIBilling rt p lg = (ra, lgA)"
    by (cases "tryNewAPIBilling rt p lg")
  obtain rb lgB where B: "tryOneAPI rt p lgA = (rb, lgB)"
    by (cases "tryOneAPI rt p lgA")
  obtain rc lgC where C: "tryOpenRouter rt p lgB = (rc, lgC)"
    by (cases "tryOpenRouter rt p lgB")
  show ?thesis
  proof (cases ra)
    case (Some a)
    with A tryNewAPIBilling_error [of rt p lg a lgA] show ?thesis
      by (simp add: detectors_def returned_def)
  next
    case None
    note raN = this
    show ?thesis
    proof (cases rb)
      case (Some b)
      with A B raN tryOneAPI_error [of rt p lgA b lgB] show ?thesis
        by (simp add: detectors_def returned_def)
    next
      case None
      note rbN = this
      show ?thesis
      proof (cases rc)
        case (Some c)
        with A B C raN rbN tryOpenRouter_error [of rt p lgB c lgC] show ?thesis
          by (simp add: detectors_def returned_def)
      next
        case None
        with A B C raN rbN show ?thesis
          by (simp add: detectors_def returned_def)
      qed
    qed
  qed
qed

lemma fetchUsage_after_newapi_null:
  assumes "apiKey p \<noteq> []" and "endpoint p \<noteq> []"
    and "tryNewAPIBilling rt p lg = (None, lgA)"
  shows "fetchUsage rt p lg =
     (case tryOneAPI rt p lgA of
        (Some b, lgB) \<Rightarrow> (b, lgB)
      | (None, lgB) \<Rightarrow>
          (case tryOpenRouter rt p lgB of
             (Some c, lgC) \<Rightarrow> (c, lgC)
           | (None, lgC) \<Rightarrow> (unknown_result ''Unable to detect API type'', lgC)))"
  using assms
  by (simp add: fetchUsage_def run_detectors_cascade split: prod.splits option.splits)

lemmas probe_defs = tryNewAPIBilling_def tryOneAPI_def tryOpenRouter_def client_get_eq
  mk_request_def member_def opt_member_def js_or_def js_div_def js_sub_def js_add_def
  js_ge_def js_gt_def new_UniversalProvider_def strip_trailing_slash_def world_def
  scripted_def unknown_result_def round_double_eval


section \<open>The orchestrator\<close>

text \<open>
  Claim C1. When the provider's \<open>apiKey\<close> and \<open>endpoint\<close> (as the constructor left
  them) are both non-empty, \<open>fetchUsage\<close> runs the probes in the order NewAPI, OneAPI,
  OpenRouter, each from the request list the one before left behind. It returns the
  record of the first probe that does not return \<open>null\<close>, together with that probe's
  request list (so no later probe has issued anything), and the \<open>unknown\<close> record with
  its error when all three return \<open>null\<close>. The result is one probe's record as it
  stands or the sentinel, never a mixture. A record from a probe never carries an
  \<open>error\<close> (\<open>tryNewAPIBilling_error\<close>, \<open>tryOneAPI_error\<close>,
  \<open>tryOpenRouter_error\<close>), so "non-null" and "non-null and error-free" are the same
  test.
\<close>

theorem C1_fetchUsage_first_match:
  assumes "apiKey p \<noteq> []" and "endpoint p \<noteq> []"
  shows "fetchUsage rt p lg =
     (case tryNewAPIBilling rt p lg of
        (Some a, lgA) \<Rightarrow> (a, lgA)
      | (None, lgA) \<Rightarrow>
          (case tryOneAPI rt p lgA of
             (Some b, lgB) \<Rightarrow> (b, lgB)
           | (None, lgB) \<Rightarrow>
               (case tryOpenRouter rt p lgB of
                  (Some c, lgC) \<Rightarrow> (c, lgC)
                | (None, lgC) \<Rightarrow> (unknown_result ''Unable to detect API type'', lgC))))"
  using assms
  by (simp add: fetchUsage_def run_detectors_cascade split: prod.splits option.splits)

theorem C1_fetchUsage_first_match_witness:
  "apiKey (new_UniversalProvider ''sk'' ''https://api.example.com'') \<noteq> [] \<and>
   endpoint (new_UniversalProvider ''sk'' ''https://api.example.com'') \<noteq> [] \<and>
   fetchUsage
     (world [None, Some (JObj [(''data'', JObj [(''quota'', JNum 2500000),
                                                 (''used_quota'', JNum 500000)])])])
     (new_UniversalProvider ''sk'' ''https://api.example.com'') [] =
   (\<lparr>todayUsed = JNum 0, monthUsed = JNum 0, totalUsed = JNum 1, total = JNum 6,
     remaining = JNum 5, type = ''OneAPI'', error = None\<rparr>,
    [mk_request (client (new_UniversalProvider ''sk'' ''https://api.example.com''))
       ''https://api.example.com/v1/dashboard/billing/subscription'' [],
     mk_request (client (new_UniversalProvider ''sk'' ''https://api.example.com''))
       ''https://api.example.com/api/user/self'' []])"
  using C1_fetchUsage_first_match
    [of "new_UniversalProvider ''sk'' ''https://api.example.com''"
        "world [None, Some (JObj [(''data'', JObj [(''quota'', JNum 2500000),
                                                 (''used_quota'', JNum 500000)])])]" "[]"]
  by (simp add: probe_defs)

text \<open>
  Claim C2. When the API key or the endpoint handed to the constructor is empty,
  \<open>fetchUsage\<close> returns the record with every amount 0, type \<open>unknown\<close> and the
  error \<open>API Key or Endpoint not configured\<close>, and the list of issued requests is
  what it was: no request is sent.
\<close>

theorem C2_config_missing:
  assumes "k = [] \<or> e = []"
  shows "fetchUsage rt (new_UniversalProvider k e) lg =
     (\<lparr>todayUsed = JNum 0, monthUsed = JNum 0, totalUsed = JNum 0, total = JNum 0,
       remaining = JNum 0, type = ''unknown'',
       error = Some ''API Key or Endpoint not configured''\<rparr>, lg)"
  using assms
  by (auto simp: fetchUsage_def new_UniversalProvider_def strip_trailing_slash_def
      unknown_result_def)

theorem C2_config_missing_witness:
  "(''sk'' = [] \<or> ([]::string) = []) \<and>
   fetchUsage (world [Some (JObj [])]) (new_UniversalProvider ''sk'' []) [] =
     (\<lparr>todayUsed = JNum 0, monthUsed = JNum 0, totalUsed = JNum 0, total = JNum 0,
       remaining = JNum 0, type = ''unknown'',
       error = Some ''API Key or Endpoint not configured''\<rparr>, [])"
  using C2_config_missing [of "''sk''" "[]" "world [Some (JObj [])]" "[]"]
  by simp

text \<open>
  Claim C8. With non-empty credentials, when all three probes return \<open>null\<close> (a
  probe turns every exception of its own into \<open>null\<close>), \<open>fetchUsage\<close> returns a
  value, namely the record with every amount 0, type \<open>unknown\<close> and the error
  \<open>Unable to detect API type\<close>. \<open>fetchUsage\<close> is a total function of the model:
  no path of it throws.
\<close>

theorem C8_all_probes_fail:
  assumes "apiKey p \<noteq> []" and "endpoint p \<noteq> []"
    and "tryNewAPIBilling rt p lg = (None, lgA)"
    and "tryOneAPI rt p lgA = (None, lgB)"
    and "tryOpenRouter rt p lgB = (None, lgC)"
  shows "fetchUsage rt p lg =
     (\<lparr>todayUsed = JNum 0, monthUsed = JNum 0, totalUsed = JNum 0, total = JNum 0,
       remaining = JNum 0, type = ''unknown'',
       error = Some ''Unable to detect API type''\<rparr>, lgC)"
  using assms
  by (simp add: fetchUsage_def run_detectors_cascade unknown_result_def)

theorem C8_all_probes_fail_witness:
  "fetchUsage (world [None, Some (JStr ''<html>'')])
     (new_UniversalProvider ''sk'' ''https://api.example.com'') [] =
     (\<lparr>todayUsed = JNum 0, monthUsed = JNum 0, totalUsed = JNum 0, total = JNum 0,
       remaining = JNum 0, type = ''unknown'',
       error = Some ''Unable to detect API type''\<rparr>,
      [subscription_request (new_UniversalProvider ''sk'' ''https://api.example.com''),
       self_request (new_UniversalProvider ''sk'' ''https://api.example.com'')])"
  using C8_all_probes_fail
    [of "new_UniversalProvider ''sk'' ''https://api.example.com''"
        "world [None, Some (JStr ''<html>'')]" "[]"
        "[subscription_request (new_UniversalProvider ''sk'' ''https://api.example.com'')]"
        "[subscription_request (new_UniversalProvider ''sk'' ''https://api.example.com''),
          self_request (new_UniversalProvider ''sk'' ''https://api.example.com'')]"
        "[subscription_request (new_UniversalProvider ''sk'' ''https://api.example.com''),
          self_request (new_UniversalProvider ''sk'' ''https://api.example.com'')]"]
  by (simp add: tryNewAPIBilling_def tryOneAPI_def tryOpenRouter_def client_get_eq
  mk_request_def member_def opt_member_def js_or_def js_div_def js_sub_def js_ge_def js_gt_def
  new_UniversalProvider_def strip_trailing_slash_def world_def scripted_def
  Let_def)

text \<open>
  Claim C10. The constructor removes exactly one \<open>/\<close> from the end of the endpoint.
  For an endpoint \<open>e\<close> that does not end in \<open>/\<close>, the provider built from
  \<open>e + '/'\<close> is the provider built from \<open>e\<close>, so \<open>fetchUsage\<close> returns the
  same on both; and the endpoint \<open>/\<close> alone is treated as not configured.
\<close>

theorem C10_trailing_slash:
  "strip_trailing_slash (e @ ''/'') = e
   \<and> (\<not> (e \<noteq> [] \<and> last e = CHR ''/'') \<longrightarrow>
        new_UniversalProvider k (e @ ''/'') = new_UniversalProvider k e \<and>
        fetchUsage rt (new_UniversalProvider k (e @ ''/'')) lg =
          fetchUsage rt (new_UniversalProvider k e) lg)
   \<and> fetchUsage rt (new_UniversalProvider k ''/'') lg =
        (\<lparr>todayUsed = JNum 0, monthUsed = JNum 0, totalUsed = JNum 0, total = JNum 0,
          remaining = JNum 0, type = ''unknown'',
          error = Some ''API Key or Endpoint not configured''\<rparr>, lg)"
proof -
  have one: "strip_trailing_slash (e @ ''/'') = e"
    by (simp add: strip_trailing_slash_def)
  have same: "\<not> (e \<noteq> [] \<and> last e = CHR ''/'') \<longrightarrow>
        new_UniversalProvider k (e @ ''/'') = new_UniversalProvider k e"
    by (auto simp: new_UniversalProvider_def strip_trailing_slash_def)
  have slash: "fetchUsage rt (new_UniversalProvider k ''/'') lg =
        (\<lparr>todayUsed = JNum 0, monthUsed = JNum 0, totalUsed = JNum 0, total = JNum 0,
          remaining = JNum 0, type = ''unknown'',
          error = Some ''API Key or Endpoint not configured''\<rparr>, lg)"
    by (simp add: fetchUsage_def new_UniversalProvider_def strip_trailing_slash_def
        unknown_result_def)
  from one same slash show ?thesis by simp
qed

theorem C10_trailing_slash_witness:
  "fetchUsage (world [None, Some (JObj [(''data'', JObj [(''quota'', JNum 2500000)])])])
     (new_UniversalProvider ''sk'' ''https://api.example.com/'') [] =
   (\<lparr>todayUsed = JNum 0, monthUsed = JNum 0, totalUsed = JNum 0, total = JNum 5,
     remaining = JNum 5, type = ''OneAPI'', error = None\<rparr>,
    [subscription_request (new_UniversalProvider ''sk'' ''https://api.example.com''),
     self_request (new_UniversalProvider ''sk'' ''https://api.example.com'')])"
proof -
  have "fetchUsage (world [None, Some (JObj [(''data'', JObj [(''quota'', JNum 2500000)])])])
          (new_UniversalProvider ''sk'' ''https://api.example.com'') [] =
   (\<lparr>todayUsed = JNum 0, monthUsed = JNum 0, totalUsed = JNum 0, total = JNum 5,
     remaining = JNum 5, type = ''OneAPI'', error = None\<rparr>,
    [subscription_request (new_UniversalProvider ''sk'' ''https://api.example.com''),
     self_request (new_UniversalProvider ''sk'' ''https://api.example.com'')])"
    by (simp add: fetchUsage_def detectors_def returned_def probe_defs Let_def)
  then show ?thesis
    using C10_trailing_slash
      [of "''https://api.example.com''" "''sk''"
          "world [None, Some (JObj [(''data'', JObj [(''quota'', JNum 2500000)])])]" "[]"]
    by simp
qed


section \<open>Format A: NewAPI\<close>

text \<open>
  Claim C3. When the subscription response is an object with no truthy \<open>error\<close> whose
  \<open>hard_limit_usd\<close> is the number \<open>H\<close>, and the usage responses for today, the
  month and the year are objects whose \<open>total_usage\<close> are the numbers \<open>t\<close>,
  \<open>m\<close> and \<open>y\<close>, the probe returns todayUsed \<open>t / 100\<close>, monthUsed
  \<open>m / 100\<close>, totalUsed \<open>y / 100\<close>, type \<open>NewAPI\<close>, and total 0 and remaining 0
  when \<open>H \<ge> 1000000\<close>, total \<open>H\<close> and remaining \<open>H - totalUsed\<close> otherwise.
  The quotients and the difference are those of the language: \<open>number_div\<close> and
  \<open>number_sub\<close> round the exact result to binary64.
\<close>

theorem C3_newapi_amounts:
  assumes sub: "reply rt (length lg) (subscription_request p) = Some sub"
    and H: "own_prop sub ''hard_limit_usd'' = JNum H"
    and noerr: "\<not> truthy (own_prop sub ''error'')"
    and td: "reply rt (length lg + 1) (usage_request rt p (today rt)) = Some td"
    and t: "own_prop td ''total_usage'' = JNum t"
    and md: "reply rt (length lg + 2) (usage_request rt p (monthStart rt)) = Some md"
    and m: "own_prop md ''total_usage'' = JNum m"
    and yd: "reply rt (length lg + 3) (usage_request rt p (yearStart rt)) = Some yd"
    and y: "own_prop yd ''total_usage'' = JNum y"
  shows "fst (tryNewAPIBilling rt p lg) =
     Some \<lparr>todayUsed = of_number (number_div (Fin t) 100),
           monthUsed = of_number (number_div (Fin m) 100),
           totalUsed = of_number (number_div (Fin y) 100),
           total = JNum (if H \<ge> 1000000 then 0 else H),
           remaining = (if H \<ge> 1000000 then JNum 0
                        else of_number (number_sub (Fin H) (number_div (Fin y) 100))),
           type = ''NewAPI'', error = None\<rparr>"
proof -
  have ts: "truthy sub" "truthy td" "truthy md" "truthy yd"
    using H t m y by (auto dest: own_prop_num_object)
  show ?thesis
    using assms ts
    by (simp add: tryNewAPIBilling_def client_get_eq member_truthy opt_member_truthy
        js_or_num js_div_num js_ge_def js_sub_def ToNumber_of_number Let_def
        eval_nat_numeral del: number_div.simps)
qed

text \<open>
  The witness runs the scenario of the specification (limit 50; 250, 4000 and 4500
  cents), an unlimited subscription, and a limit of 0.03 with one cent used, where the
  quotient and the difference are both rounded: 0.03 is the binary64 value
  \<open>1080863910568919 / 2 ^ 55\<close>, one cent comes to \<open>5764607523034235 / 2 ^ 59\<close>
  (0.01) and the remaining balance to \<open>2882303761517117 / 2 ^ 57\<close>
  (0.019999999999999997).
\<close>

theorem C3_newapi_amounts_witness:
  "fst (tryNewAPIBilling
          (world [Some (JObj [(''hard_limit_usd'', JNum 50)]),
                  Some (JObj [(''total_usage'', JNum 250)]),
                  Some (JObj [(''total_usage'', JNum 4000)]),
                  Some (JObj [(''total_usage'', JNum 4500)])])
          (new_UniversalProvider ''sk'' ''https://api.example.com'') []) =
     Some \<lparr>todayUsed = JNum (5 / 2), monthUsed = JNum 40, totalUsed = JNum 45,
           total = JNum 50, remaining = JNum 5, type = ''NewAPI'', error = None\<rparr>
   \<and> fst (tryNewAPIBilling
          (world [Some (JObj [(''hard_limit_usd'', JNum 100000000)]),
                  Some (JObj [(''total_usage'', JNum 250)]),
                  Some (JObj [(''total_usage'', JNum 4000)]),
                  Some (JObj [(''total_usage'', JNum 4500)])])
          (new_UniversalProvider ''sk'' ''https://api.example.com'') []) =
     Some \<lparr>todayUsed = JNum (5 / 2), monthUsed = JNum 40, totalUsed = JNum 45,
           total = JNum 0, remaining = JNum 0, type = ''NewAPI'', error = None\<rparr>
   \<and> fst (tryNewAPIBilling
          (world [Some (JObj [(''hard_limit_usd'', JNum (1080863910568919 / 2 ^ 55))]),
                  Some (JObj [(''total_usage'', JNum 1)]),
                  Some (JObj [(''total_usage'', JNum 1)]),
                  Some (JObj [(''total_usage'', JNum 1)])])
          (new_UniversalProvider ''sk'' ''https://api.example.com'') []) =
     Some \<lparr>todayUsed = JNum (5764607523034235 / 2 ^ 59),
           monthUsed = JNum (5764607523034235 / 2 ^ 59),
           totalUsed = JNum (5764607523034235 / 2 ^ 59),
           total = JNum (1080863910568919 / 2 ^ 55),
           remaining = JNum (2882303761517117 / 2 ^ 57),
           type = ''NewAPI'', error = None\<rparr>"
proof -
  let ?p = "new_UniversalProvider ''sk'' ''https://api.example.com''"
  have a: "fst (tryNewAPIBilling
          (world [Some (JObj [(''hard_limit_usd'', JNum 50)]),
                  Some (JObj [(''total_usage'', JNum 250)]),
                  Some (JObj [(''total_usage'', JNum 4000)]),
                  Some (JObj [(''total_usage'', JNum 4500)])]) ?p []) =
     Some \<lparr>todayUsed = JNum (5 / 2), monthUsed = JNum 40, totalUsed = JNum 45,
           total = JNum 50, remaining = JNum 5, type = ''NewAPI'', error = None\<rparr>"
    using C3_newapi_amounts
    [of "world [Some (JObj [(''hard_limit_usd'', JNum 50)]),
                Some (JObj [(''total_usage'', JNum 250)]),
                Some (JObj [(''total_usage'', JNum 4000)]),
                Some (JObj [(''total_usage'', JNum 4500)])]"
        "[]" ?p
        "JObj [(''hard_limit_usd'', JNum 50)]" 50
        "JObj [(''total_usage'', JNum 250)]" 250
        "JObj [(''total_usage'', JNum 4000)]" 4000
        "JObj [(''total_usage'', JNum 4500)]" 4500]
    by (simp add: world_def scripted_def round_double_eval)
  have b: "fst (tryNewAPIBilling
          (world [Some (JObj [(''hard_limit_usd'', JNum 100000000)]),
                  Some (JObj [(''total_usage'', JNum 250)]),
                  Some (JObj [(''total_usage'', JNum 4000)]),
                  Some (JObj [(''total_usage'', JNum 4500)])]) ?p []) =
     Some \<lparr>todayUsed = JNum (5 / 2), monthUsed = JNum 40, totalUsed = JNum 45,
           total = JNum 0, remaining = JNum 0, type = ''NewAPI'', error = None\<rparr>"
    using C3_newapi_amounts
    [of "world [Some (JObj [(''hard_limit_usd'', JNum 100000000)]),
                Some (JObj [(''total_usage'', JNum 250)]),
                Some (JObj [(''total_usage'', JNum 4000)]),
                Some (JObj [(''total_usage'', JNum 4500)])]"
        "[]" ?p
        "JObj [(''hard_limit_usd'', JNum 100000000)]" 100000000
        "JObj [(''total_usage'', JNum 250)]" 250
        "JObj [(''total_usage'', JNum 4000)]" 4000
        "JObj [(''total_usage'', JNum 4500)]" 4500]
    by (simp add: world_def scripted_def round_double_eval)
  have c: "fst (tryNewAPIBilling
          (world [Some (JObj [(''hard_limit_usd'', JNum (1080863910568919 / 2 ^ 55))]),
                  Some (JObj [(''total_usage'', JNum 1)]),
                  Some (JObj [(''total_usage'', JNum 1)]),
                  Some (JObj [(''total_usage'', JNum 1)])]) ?p []) =
     Some \<lparr>todayUsed = JNum (5764607523034235 / 2 ^ 59),
           monthUsed = JNum (5764607523034235 / 2 ^ 59),
           totalUsed = JNum (5764607523034235 / 2 ^ 59),
           total = JNum (1080863910568919 / 2 ^ 55),
           remaining = JNum (2882303761517117 / 2 ^ 57),
           type = ''NewAPI'', error = None\<rparr>"
    using C3_newapi_amounts
    [of "world [Some (JObj [(''hard_limit_usd'', JNum (1080863910568919 / 2 ^ 55))]),
                Some (JObj [(''total_usage'', JNum 1)]),
                Some (JObj [(''total_usage'', JNum 1)]),
                Some (JObj [(''total_usage'', JNum 1)])]"
        "[]" ?p
        "JObj [(''hard_limit_usd'', JNum (1080863910568919 / 2 ^ 55))]"
        "1080863910568919 / 2 ^ 55"
        "JObj [(''total_usage'', JNum 1)]" 1
        "JObj [(''total_usage'', JNum 1)]" 1
        "JObj [(''total_usage'', JNum 1)]" 1]
    by (simp add: world_def scripted_def round_double_eval)
  from a b c show ?thesis by (simp only: simp_thms)
qed

text \<open>
  Claim C6. When the subscription call succeeds (a truthy body with no truthy
  \<open>error\<close>) and at least one of the three usage calls is rejected, the NewAPI probe
  returns \<open>null\<close> after issuing all four requests, and \<open>fetchUsage\<close> goes on with
  the OneAPI probe: the request after those four is the one to \<open>/api/user/self\<close>.
\<close>

theorem C6_newapi_usage_call_fails:
  assumes sub: "reply rt (length lg) (subscription_request p) = Some sub"
    and ok: "truthy sub" "\<not> truthy (own_prop sub ''error'')"
    and fails: "reply rt (length lg + 1) (usage_request rt p (today rt)) = None
              \<or> reply rt (length lg + 2) (usage_request rt p (monthStart rt)) = None
              \<or> reply rt (length lg + 3) (usage_request rt p (yearStart rt)) = None"
    and cfg: "apiKey p \<noteq> []" "endpoint p \<noteq> []"
  shows "tryNewAPIBilling rt p lg =
           (None, lg @ [subscription_request p, usage_request rt p (today rt),
                        usage_request rt p (monthStart rt), usage_request rt p (yearStart rt)])
       \<and> take (length lg + 5) (snd (fetchUsage rt p lg)) =
           lg @ [subscription_request p, usage_request rt p (today rt),
                 usage_request rt p (monthStart rt), usage_request rt p (yearStart rt),
                 self_request p]
       \<and> fetchUsage rt p lg =
           (case tryOneAPI rt p
                   (lg @ [subscription_request p, usage_request rt p (today rt),
                          usage_request rt p (monthStart rt),
                          usage_request rt p (yearStart rt)]) of
              (Some b, lgB) \<Rightarrow> (b, lgB)
            | (None, lgB) \<Rightarrow>
                (case tryOpenRouter rt p lgB of
                   (Some c, lgC) \<Rightarrow> (c, lgC)
                 | (None, lgC) \<Rightarrow> (unknown_result ''Unable to detect API type'', lgC)))"
proof -
  let ?l4 = "lg @ [subscription_request p, usage_request rt p (today rt),
                   usage_request rt p (monthStart rt), usage_request rt p (yearStart rt)]"
  have res: "fst (tryNewAPIBilling rt p lg) = None"
    using sub ok fails
    by (auto simp: tryNewAPIBilling_def client_get_eq member_truthy Let_def eval_nat_numeral
        split: option.splits)
  have A: "tryNewAPIBilling rt p lg = (None, ?l4)"
    using res tryNewAPIBilling_requests_after_subscription [OF sub ok]
    by (simp add: prod_eq_iff)
  have F: "fetchUsage rt p lg =
           (case tryOneAPI rt p ?l4 of
              (Some b, lgB) \<Rightarrow> (b, lgB)
            | (None, lgB) \<Rightarrow>
                (case tryOpenRouter rt p lgB of
                   (Some c, lgC) \<Rightarrow> (c, lgC)
                 | (None, lgC) \<Rightarrow> (unknown_result ''Unable to detect API type'', lgC)))"
    by (rule fetchUsage_after_newapi_null [OF cfg A])
  obtain rb lgB where B: "tryOneAPI rt p ?l4 = (rb, lgB)"
    by (cases "tryOneAPI rt p ?l4")
  have lgB: "lgB = ?l4 @ [self_request p]"
    using tryOneAPI_requests [of rt p ?l4] B by simp
  obtain rc lgC where C: "tryOpenRouter rt p lgB = (rc, lgC)"
    by (cases "tryOpenRouter rt p lgB")
  have lgC: "lgC = lgB \<or> lgC = lgB @ [auth_key_request p]"
    using tryOpenRouter_requests [of rt p lgB] C by (simp split: if_splits)
  have "snd (fetchUsage rt p lg) = lgB \<or> snd (fetchUsage rt p lg) = lgB @ [auth_key_request p]"
    using F B C lgC by (auto split: option.splits)
  then have T: "take (length lg + 5) (snd (fetchUsage rt p lg)) = ?l4 @ [self_request p]"
    using lgB by auto
  show ?thesis using A T F by simp
qed

theorem C6_newapi_usage_call_fails_witness:
  "tryNewAPIBilling
     (world [Some (JObj [(''hard_limit_usd'', JNum 50)]),
             Some (JObj [(''total_usage'', JNum 250)]),
             None,
             Some (JObj [(''total_usage'', JNum 4500)]),
             Some (JObj [(''data'', JObj [(''quota'', JNum 2500000),
                                          (''used_quota'', JNum 500000)])])])
     (new_UniversalProvider ''sk'' ''https://api.example.com'') [] =
     (None,
      [subscription_request (new_UniversalProvider ''sk'' ''https://api.example.com''),
       mk_request (client (new_UniversalProvider ''sk'' ''https://api.example.com''))
         ''https://api.example.com/v1/dashboard/billing/usage''
         [(''start_date'', ''2026-11-01''), (''end_date'', ''2026-11-01'')],
       mk_request (client (new_UniversalProvider ''sk'' ''https://api.example.com''))
         ''https://api.example.com/v1/dashboard/billing/usage''
         [(''start_date'', ''2026-11-01''), (''end_date'', ''2026-11-01'')],
       mk_request (client (new_UniversalProvider ''sk'' ''https://api.example.com''))
         ''https://api.example.com/v1/dashboard/billing/usage''
         [(''start_date'', ''2026-01-01''), (''end_date'', ''2026-11-01'')]])
   \<and> fetchUsage
     (world [Some (JObj [(''hard_limit_usd'', JNum 50)]),
             Some (JObj [(''total_usage'', JNum 250)]),
             None,
             Some (JObj [(''total_usage'', JNum 4500)]),
             Some (JObj [(''data'', JObj [(''quota'', JNum 2500000),
                                          (''used_quota'', JNum 500000)])])])
     (new_UniversalProvider ''sk'' ''https://api.example.com'') [] =
     (\<lparr>todayUsed = JNum 0, monthUsed = JNum 0, totalUsed = JNum 1, total = JNum 6,
       remaining = JNum 5, type = ''OneAPI'', error = None\<rparr>,
      [subscription_request (new_UniversalProvider ''sk'' ''https://api.example.com''),
       mk_request (client (new_UniversalProvider ''sk'' ''https://api.example.com''))
         ''https://api.example.com/v1/dashboard/billing/usage''
         [(''start_date'', ''2026-11-01''), (''end_date'', ''2026-11-01'')],
       mk_request (client (new_UniversalProvider ''sk'' ''https://api.example.com''))
         ''https://api.example.com/v1/dashboard/billing/usage''
         [(''start_date'', ''2026-11-01''), (''end_date'', ''2026-11-01'')],
       mk_request (client (new_UniversalProvider ''sk'' ''https://api.example.com''))
         ''https://api.example.com/v1/dashboard/billing/usage''
         [(''start_date'', ''2026-01-01''), (''end_date'', ''2026-11-01'')],
       self_request (new_UniversalProvider ''sk'' ''https://api.example.com'')])"
  using C6_newapi_usage_call_fails
    [of "world [Some (JObj [(''hard_limit_usd'', JNum 50)]),
             Some (JObj [(''total_usage'', JNum 250)]),
             None,
             Some (JObj [(''total_usage'', JNum 4500)]),
             Some (JObj [(''data'', JObj [(''quota'', JNum 2500000),
                                          (''used_quota'', JNum 500000)])])]"
        "[]" "new_UniversalProvider ''sk'' ''https://api.example.com''"
        "JObj [(''hard_limit_usd'', JNum 50)]"]
  by (simp add: tryOneAPI_def tryOpenRouter_def client_get_eq
  mk_request_def member_def opt_member_def js_or_def js_div_def js_sub_def js_add_def
  js_ge_def js_gt_def new_UniversalProvider_def strip_trailing_slash_def world_def
  scripted_def unknown_result_def round_double_eval Let_def)


section \<open>Format B: OneAPI\<close>

text \<open>
  Claim C4. When the response's \<open>data\<close> is an object whose \<open>quota\<close> and
  \<open>used_quota\<close> are the numbers \<open>q\<close> and \<open>u\<close>, the probe returns totalUsed
  \<open>u / 500000\<close>, remaining \<open>q / 500000\<close>, total the sum of the two quotients,
  todayUsed and monthUsed 0, and type \<open>OneAPI\<close>. The quotients and the sum are those
  of the language, rounded to binary64.
\<close>

theorem C4_oneapi_amounts:
  assumes body: "reply rt (length lg) (self_request p) = Some body"
    and data: "opt_member body ''data'' = JObj kvs"
    and q: "map_of kvs ''quota'' = Some (JNum q)"
    and u: "map_of kvs ''used_quota'' = Some (JNum u)"
  shows "fst (tryOneAPI rt p lg) =
     Some \<lparr>todayUsed = JNum 0, monthUsed = JNum 0,
           totalUsed = of_number (number_div (Fin u) 500000),
           total = of_number (number_add (number_div (Fin q) 500000)
                                         (number_div (Fin u) 500000)),
           remaining = of_number (number_div (Fin q) 500000),
           type = ''OneAPI'', error = None\<rparr>"
  using assms
  by (simp add: tryOneAPI_def client_get_eq member_def js_or_def js_div_def js_add_def
      the_number_of_number round_double_zero Let_def del: number_div.simps)

text \<open>
  The witness runs the scenario of the specification (quota 2500000, used 500000) and
  the quota 50000 with 100000 used, where all three amounts are rounded: 0.1 is
  \<open>3602879701896397 / 2 ^ 55\<close>, 0.2 is \<open>3602879701896397 / 2 ^ 54\<close> and their sum
  comes to \<open>1351079888211149 / 2 ^ 52\<close> (0.30000000000000004).
\<close>

theorem C4_oneapi_amounts_witness:
  "fst (tryOneAPI
          (world [Some (JObj [(''data'', JObj [(''quota'', JNum 2500000),
                                                (''used_quota'', JNum 500000)])])])
          (new_UniversalProvider ''sk'' ''https://api.example.com'') []) =
     Some \<lparr>todayUsed = JNum 0, monthUsed = JNum 0, totalUsed = JNum 1,
           total = JNum 6, remaining = JNum 5, type = ''OneAPI'', error = None\<rparr>
   \<and> fst (tryOneAPI
          (world [Some (JObj [(''data'', JObj [(''quota'', JNum 50000),
                                                (''used_quota'', JNum 100000)])])])
          (new_UniversalProvider ''sk'' ''https://api.example.com'') []) =
     Some \<lparr>todayUsed = JNum 0, monthUsed = JNum 0,
           totalUsed = JNum (3602879701896397 / 2 ^ 54),
           total = JNum (1351079888211149 / 2 ^ 52),
           remaining = JNum (3602879701896397 / 2 ^ 55),
           type = ''OneAPI'', error = None\<rparr>"
proof -
  let ?p = "new_UniversalProvider ''sk'' ''https://api.example.com''"
  have a: "fst (tryOneAPI
          (world [Some (JObj [(''data'', JObj [(''quota'', JNum 2500000),
                                                (''used_quota'', JNum 500000)])])]) ?p []) =
     Some \<lparr>todayUsed = JNum 0, monthUsed = JNum 0, totalUsed = JNum 1,
           total = JNum 6, remaining = JNum 5, type = ''OneAPI'', error = None\<rparr>"
    using C4_oneapi_amounts
    [of "world [Some (JObj [(''data'', JObj [(''quota'', JNum 2500000),
                                              (''used_quota'', JNum 500000)])])]"
        "[]" ?p
        "JObj [(''data'', JObj [(''quota'', JNum 2500000), (''used_quota'', JNum 500000)])]"
        "[(''quota'', JNum 2500000), (''used_quota'', JNum 500000)]" 2500000 500000]
    by (simp add: world_def scripted_def opt_member_def round_double_eval)
  have b: "fst (tryOneAPI
          (world [Some (JObj [(''data'', JObj [(''quota'', JNum 50000),
                                                (''used_quota'', JNum 100000)])])]) ?p []) =
     Some \<lparr>todayUsed = JNum 0, monthUsed = JNum 0,
           totalUsed = JNum (3602879701896397 / 2 ^ 54),
           total = JNum (1351079888211149 / 2 ^ 52),
           remaining = JNum (3602879701896397 / 2 ^ 55),
           type = ''OneAPI'', error = None\<rparr>"
    using C4_oneapi_amounts
    [of "world [Some (JObj [(''data'', JObj [(''quota'', JNum 50000),
                                              (''used_quota'', JNum 100000)])])]"
        "[]" ?p
        "JObj [(''data'', JObj [(''quota'', JNum 50000), (''used_quota'', JNum 100000)])]"
        "[(''quota'', JNum 50000), (''used_quota'', JNum 100000)]" 50000 100000]
    by (simp add: world_def scripted_def opt_member_def round_double_eval)
  from a b show ?thesis by (simp only: simp_thms)
qed

text \<open>
  Claim C9. The OneAPI probe returns \<open>null\<close> exactly when the request is rejected or
  the body's \<open>data\<close> is missing or falsy. Whenever \<open>data\<close> is truthy the probe
  returns the record of type \<open>OneAPI\<close> computed from \<open>quota\<close> and \<open>used_quota\<close>
  with 0 in the place of each one that is missing or falsy. So with \<open>quota\<close> missing
  and \<open>used_quota\<close> the number \<open>u\<close>, remaining is 0 and totalUsed and total are
  both \<open>u / 500000\<close>; with \<open>used_quota\<close> missing and \<open>quota\<close> the number
  \<open>q\<close>, totalUsed is 0 and remaining and total are both \<open>q / 500000\<close>; with both
  missing every amount is 0.
\<close>

theorem C9_oneapi_missing_fields:
  "(fst (tryOneAPI rt p lg) = None) =
     (\<forall>body. reply rt (length lg) (self_request p) = Some body \<longrightarrow>
        \<not> truthy (opt_member body ''data''))
   \<and> (\<forall>body data.
         reply rt (length lg) (self_request p) = Some body \<and>
         opt_member body ''data'' = data \<and> truthy data \<longrightarrow>
         tryOneAPI rt p lg =
           (Some \<lparr>todayUsed = JNum 0, monthUsed = JNum 0,
                  totalUsed =
                    js_div (coerce rt)
                      (if truthy (own_prop data ''used_quota'')
                       then own_prop data ''used_quota'' else JNum 0) 500000,
                  total =
                    js_add
                      (js_div (coerce rt)
                         (if truthy (own_prop data ''quota'')
                          then own_prop data ''quota'' else JNum 0) 500000)
                      (js_div (coerce rt)
                         (if truthy (own_prop data ''used_quota'')
                          then own_prop data ''used_quota'' else JNum 0) 500000),
                  remaining =
                    js_div (coerce rt)
                      (if truthy (own_prop data ''quota'')
                       then own_prop data ''quota'' else JNum 0) 500000,
                  type = ''OneAPI'', error = None\<rparr>,
            lg @ [self_request p]))
   \<and> (\<forall>body data u.
         reply rt (length lg) (self_request p) = Some body \<and>
         opt_member body ''data'' = data \<and> truthy data \<and>
         \<not> truthy (own_prop data ''quota'') \<and> own_prop data ''used_quota'' = JNum u \<longrightarrow>
         fst (tryOneAPI rt p lg) =
           Some \<lparr>todayUsed = JNum 0, monthUsed = JNum 0,
                 totalUsed = of_number (number_div (Fin u) 500000),
                 total = of_number (number_div (Fin u) 500000),
                 remaining = JNum 0, type = ''OneAPI'', error = None\<rparr>)
   \<and> (\<forall>body data q.
         reply rt (length lg) (self_request p) = Some body \<and>
         opt_member body ''data'' = data \<and> truthy data \<and>
         own_prop data ''quota'' = JNum q \<and> \<not> truthy (own_prop data ''used_quota'') \<longrightarrow>
         fst (tryOneAPI rt p lg) =
           Some \<lparr>todayUsed = JNum 0, monthUsed = JNum 0,
                 totalUsed = JNum 0,
                 total = of_number (number_div (Fin q) 500000),
                 remaining = of_number (number_div (Fin q) 500000),
                 type = ''OneAPI'', error = None\<rparr>)
   \<and> (\<forall>body data.
         reply rt (length lg) (self_request p) = Some body \<and>
         opt_member body ''data'' = data \<and> truthy data \<and>
         \<not> truthy (own_prop data ''quota'') \<and> \<not> truthy (own_prop data ''used_quota'') \<longrightarrow>
         fst (tryOneAPI rt p lg) =
           Some \<lparr>todayUsed = JNum 0, monthUsed = JNum 0, totalUsed = JNum 0,
                 total = JNum 0, remaining = JNum 0, type = ''OneAPI'', error = None\<rparr>)"
proof -
  have null: "(fst (tryOneAPI rt p lg) = None) =
     (\<forall>body. reply rt (length lg) (self_request p) = Some body \<longrightarrow>
        \<not> truthy (opt_member body ''data''))"
  proof (cases "reply rt (length lg) (self_request p)")
    case None
    then show ?thesis by (simp add: tryOneAPI_def client_get_eq)
  next
    case (Some body)
    then show ?thesis
      by (cases "truthy (opt_member body ''data'')")
         (simp_all add: tryOneAPI_def client_get_eq Let_def member_truthy)
  qed
  have rec: "tryOneAPI rt p lg =
           (Some \<lparr>todayUsed = JNum 0, monthUsed = JNum 0,
                  totalUsed =
                    js_div (coerce rt)
                      (if truthy (own_prop data ''used_quota'')
                       then own_prop data ''used_quota'' else JNum 0) 500000,
                  total =
                    js_add
                      (js_div (coerce rt)
                         (if truthy (own_prop data ''quota'')
                          then own_prop data ''quota'' else JNum 0) 500000)
                      (js_div (coerce rt)
                         (if truthy (own_prop data ''used_quota'')
                          then own_prop data ''used_quota'' else JNum 0) 500000),
                  remaining =
                    js_div (coerce rt)
                      (if truthy (own_prop data ''quota'')
                       then own_prop data ''quota'' else JNum 0) 500000,
                  type = ''OneAPI'', error = None\<rparr>,
            lg @ [self_request p])"
    if "reply rt (length lg) (self_request p) = Some body"
      and "opt_member body ''data'' = data" and "truthy data" for body data
    using that
    by (simp add: tryOneAPI_def client_get_eq Let_def member_truthy js_or_def)
  have zero: "js_div c (JNum 0) 500000 = JNum 0" for c
    by (simp add: js_div_def round_double_zero)
  have used_only: "fst (tryOneAPI rt p lg) =
           Some \<lparr>todayUsed = JNum 0, monthUsed = JNum 0,
                 totalUsed = of_number (number_div (Fin u) 500000),
                 total = of_number (number_div (Fin u) 500000),
                 remaining = JNum 0, type = ''OneAPI'', error = None\<rparr>"
    if "reply rt (length lg) (self_request p) = Some body"
      and "opt_member body ''data'' = data" and "truthy data"
      and "\<not> truthy (own_prop data ''quota'')" and "own_prop data ''used_quota'' = JNum u"
    for body data u
    using rec [OF that(1-3)] that(4,5)
    by (simp add: zero js_div_num js_add_def the_number_of_number number_add_zero_left
        round_double_zero)
  have quota_only: "fst (tryOneAPI rt p lg) =
           Some \<lparr>todayUsed = JNum 0, monthUsed = JNum 0,
                 totalUsed = JNum 0,
                 total = of_number (number_div (Fin q) 500000),
                 remaining = of_number (number_div (Fin q) 500000),
                 type = ''OneAPI'', error = None\<rparr>"
    if "reply rt (length lg) (self_request p) = Some body"
      and "opt_member body ''data'' = data" and "truthy data"
      and "own_prop data ''quota'' = JNum q" and "\<not> truthy (own_prop data ''used_quota'')"
    for body data q
    using rec [OF that(1-3)] that(4,5)
    by (simp add: zero js_div_num js_add_def the_number_of_number number_add_zero_right
        round_double_zero)
  have neither: "fst (tryOneAPI rt p lg) =
           Some \<lparr>todayUsed = JNum 0, monthUsed = JNum 0, totalUsed = JNum 0,
                 total = JNum 0, remaining = JNum 0, type = ''OneAPI'', error = None\<rparr>"
    if "reply rt (length lg) (self_request p) = Some body"
      and "opt_member body ''data'' = data" and "truthy data"
      and "\<not> truthy (own_prop data ''quota'')"
      and "\<not> truthy (own_prop data ''used_quota'')"
    for body data
    using rec [OF that(1-3)] that(4,5)
    by (simp add: zero js_add_def round_double_zero)
  from null rec used_only quota_only neither show ?thesis by blast
qed

text \<open>
  The witness runs a body whose \<open>data\<close> has \<open>used_quota\<close> only, one with
  \<open>quota\<close> only, one with neither, and one without \<open>data\<close>.
\<close>

theorem C9_oneapi_missing_fields_witness:
  "fst (tryOneAPI (world [Some (JObj [(''data'', JObj [(''used_quota'', JNum 500000)])])])
          (new_UniversalProvider ''sk'' ''https://api.example.com'') []) =
     Some \<lparr>todayUsed = JNum 0, monthUsed = JNum 0, totalUsed = JNum 1, total = JNum 1,
           remaining = JNum 0, type = ''OneAPI'', error = None\<rparr>
   \<and> fst (tryOneAPI (world [Some (JObj [(''data'', JObj [(''quota'', JNum 2500000)])])])
          (new_UniversalProvider ''sk'' ''https://api.example.com'') []) =
     Some \<lparr>todayUsed = JNum 0, monthUsed = JNum 0, totalUsed = JNum 0, total = JNum 5,
           remaining = JNum 5, type = ''OneAPI'', error = None\<rparr>
   \<and> fst (tryOneAPI (world [Some (JObj [(''data'', JObj [(''id'', JNum 7)])])])
          (new_UniversalProvider ''sk'' ''https://api.example.com'') []) =
     Some \<lparr>todayUsed = JNum 0, monthUsed = JNum 0, totalUsed = JNum 0, total = JNum 0,
           remaining = JNum 0, type = ''OneAPI'', error = None\<rparr>
   \<and> fst (tryOneAPI (world [Some (JObj [(''success'', JBool False)])])
          (new_UniversalProvider ''sk'' ''https://api.example.com'') []) = None"
proof -
  let ?p = "new_UniversalProvider ''sk'' ''https://api.example.com''"
  let ?u = "world [Some (JObj [(''data'', JObj [(''used_quota'', JNum 500000)])])]"
  let ?q = "world [Some (JObj [(''data'', JObj [(''quota'', JNum 2500000)])])]"
  let ?n = "world [Some (JObj [(''data'', JObj [(''id'', JNum 7)])])]"
  let ?w = "world [Some (JObj [(''success'', JBool False)])]"
  have a: "fst (tryOneAPI ?u ?p []) =
     Some \<lparr>todayUsed = JNum 0, monthUsed = JNum 0, totalUsed = JNum 1, total = JNum 1,
           remaining = JNum 0, type = ''OneAPI'', error = None\<rparr>"
    using C9_oneapi_missing_fields [of ?u ?p "[]"]
    by (simp add: world_def scripted_def opt_member_def js_div_def js_add_def round_double_eval)
  have b: "fst (tryOneAPI ?q ?p []) =
     Some \<lparr>todayUsed = JNum 0, monthUsed = JNum 0, totalUsed = JNum 0, total = JNum 5,
           remaining = JNum 5, type = ''OneAPI'', error = None\<rparr>"
    using C9_oneapi_missing_fields [of ?q ?p "[]"]
    by (simp add: world_def scripted_def opt_member_def js_div_def js_add_def round_double_eval)
  have c: "fst (tryOneAPI ?n ?p []) =
     Some \<lparr>todayUsed = JNum 0, monthUsed = JNum 0, totalUsed = JNum 0, total = JNum 0,
           remaining = JNum 0, type = ''OneAPI'', error = None\<rparr>"
    using C9_oneapi_missing_fields [of ?n ?p "[]"]
    by (simp add: world_def scripted_def opt_member_def js_div_def js_add_def round_double_zero)
  have d: "fst (tryOneAPI ?w ?p []) = None"
    using C9_oneapi_missing_fields [of ?w ?p "[]"]
    by (simp add: world_def scripted_def opt_member_def)
  from a b c d show ?thesis by (simp only: simp_thms)
qed


section \<open>Format C: OpenRouter\<close>

text \<open>
  Claim C7. When the provider's endpoint does not contain \<open>openrouter.ai\<close>, the
  OpenRouter probe returns \<open>null\<close> and leaves the list of issued requests as it was.
  When the endpoint contains it, the probe issues exactly one request, to
  \<open>https://openrouter.ai/api/v1/auth/key\<close>. The provider's endpoint contains
  \<open>openrouter.ai\<close> exactly when the endpoint handed to the constructor does.
\<close>

theorem C7_openrouter_only_for_its_host:
  "(\<not> str_includes (endpoint p) ''openrouter.ai'' \<longrightarrow> tryOpenRouter rt p lg = (None, lg))
   \<and> (str_includes (endpoint p) ''openrouter.ai'' \<longrightarrow>
        snd (tryOpenRouter rt p lg) =
          lg @ [mk_request (client p) ''https://openrouter.ai/api/v1/auth/key'' []])
   \<and> str_includes (endpoint (new_UniversalProvider k e)) ''openrouter.ai'' =
        (\<exists>pre post. e = pre @ ''openrouter.ai'' @ post)"
proof -
  have skip: "\<not> str_includes (endpoint p) ''openrouter.ai'' \<longrightarrow>
              tryOpenRouter rt p lg = (None, lg)"
    by (simp add: tryOpenRouter_def)
  have one: "str_includes (endpoint p) ''openrouter.ai'' \<longrightarrow>
        snd (tryOpenRouter rt p lg) =
          lg @ [mk_request (client p) ''https://openrouter.ai/api/v1/auth/key'' []]"
    by (simp add: tryOpenRouter_requests)
  have "str_includes (endpoint (new_UniversalProvider k e)) ''openrouter.ai'' =
        str_includes e ''openrouter.ai''"
    using str_includes_strip_trailing_slash [of "''openrouter.ai''" e]
    by (simp add: new_UniversalProvider_def)
  then have cfg: "str_includes (endpoint (new_UniversalProvider k e)) ''openrouter.ai'' =
        (\<exists>pre post. e = pre @ ''openrouter.ai'' @ post)"
    by (simp only: str_includes_iff)
  from skip one cfg show ?thesis by blast
qed

theorem C7_openrouter_only_for_its_host_witness:
  "tryOpenRouter (world [Some (JObj [(''data'', JObj [(''usage'', JNum 1)])])])
     (new_UniversalProvider ''sk'' ''https://api.example.com/'') [] = (None, [])
   \<and> snd (tryOpenRouter (world [None])
          (new_UniversalProvider ''sk'' ''https://openrouter.ai/api/'') []) =
       [\<lparr>url = ''https://openrouter.ai/api/v1/auth/key'', params = [],
         req_headers = [(''Authorization'', ''Bearer sk''),
                        (''Content-Type'', ''application/json'')]\<rparr>]"
  using C7_openrouter_only_for_its_host
      [of "new_UniversalProvider ''sk'' ''https://api.example.com/''"
          "world [Some (JObj [(''data'', JObj [(''usage'', JNum 1)])])]" "[]"]
    C7_openrouter_only_for_its_host
      [of "new_UniversalProvider ''sk'' ''https://openrouter.ai/api/''" "world [None]" "[]"]
  by (simp add: new_UniversalProvider_def strip_trailing_slash_def mk_request_def)


section \<open>The remaining balance\<close>

text \<open>
  The OpenRouter probe tests \<open>limit > 0\<close> before it subtracts: with a limit that is
  missing or falsy it reports total 0 and remaining 0, whatever the usage.
\<close>

lemma tryOpenRouter_no_limit:
  assumes "str_includes (endpoint p) ''openrouter.ai''"
    and "reply rt (length lg) (auth_key_request p) = Some body"
    and "truthy (opt_member body ''data'')"
    and "\<not> truthy (own_prop (opt_member body ''data'') ''limit'')"
  shows "\<exists>r. fst (tryOpenRouter rt p lg) = Some r \<and> total r = JNum 0 \<and> remaining r = JNum 0"
  using assms
  by (simp add: tryOpenRouter_def client_get_eq member_truthy js_or_def js_gt_def Let_def)

text \<open>
  Claim C5. The claim: every record that \<open>fetchUsage\<close> returns without an error has
  remaining equal to total minus totalUsed, and remaining 0 whenever total is 0, also
  for a NewAPI result whose subscription response has \<open>hard_limit_usd\<close> 0 or absent.
  The code at such a response: the subscription body \<open>{}\<close> with 4500 cents used this
  year gives total 0 and remaining -45. The NewAPI probe subtracts without the test for a
  zero limit that the OpenRouter probe makes.
\<close>

theorem C5_newapi_no_limit_negative_remaining:
  "fst (fetchUsage
     (world [Some (JObj []),
             Some (JObj [(''total_usage'', JNum 250)]),
             Some (JObj [(''total_usage'', JNum 4000)]),
             Some (JObj [(''total_usage'', JNum 4500)])])
     (new_UniversalProvider ''sk'' ''https://api.example.com'') []) =
   \<lparr>todayUsed = JNum (5 / 2), monthUsed = JNum 40, totalUsed = JNum 45,
     total = JNum 0, remaining = JNum (- 45), type = ''NewAPI'', error = None\<rparr>
   \<and> \<not> remaining_as_specified (fst (fetchUsage
     (world [Some (JObj []),
             Some (JObj [(''total_usage'', JNum 250)]),
             Some (JObj [(''total_usage'', JNum 4000)]),
             Some (JObj [(''total_usage'', JNum 4500)])])
     (new_UniversalProvider ''sk'' ''https://api.example.com'') []))"
  by (simp add: fetchUsage_def detectors_def returned_def probe_defs Let_def
      remaining_as_specified_def)

end
